theory Spec2Isabelle
  imports Complex_Main
begin

section \<open>JavaScript values, objects and errors\<close>

text \<open>
  The provider store keeps, for every provider id, a free-form configuration object
  (\<^verbatim>\<open>Record<string, unknown>\<close>). The values that the settings pages put there are
  strings (\<^verbatim>\<open>apiKey\<close>, \<^verbatim>\<open>baseUrl\<close>) and one nested string table (\<^verbatim>\<open>headers\<close>);
  \<^verbatim>\<open>undefined\<close>, \<^verbatim>\<open>null\<close> and booleans are kept so that the truthiness tests of the
  validators have all their branches. Numbers do not occur in the configurations modelled.

  A JavaScript object is an association list of its own properties: property order is
  insertion order, which \<^verbatim>\<open>Object.keys\<close> and \<^verbatim>\<open>JSON.stringify\<close> observe. (Keys that
  look like array indices would be sorted first by the engine; provider ids and option
  names are not of that form.) A string is the list of its code units, which are below
  256 in every text used here.
\<close>

datatype jsval =
    JUndefined
  | JNull
  | JBool bool
  | JStr string
  | JObj "(string \<times> jsval) list"

type_synonym 'v js_record = "(string \<times> 'v) list"

type_synonym config = "jsval js_record"

text \<open>\<^verbatim>\<open>!!v\<close>\<close>

fun truthy :: "jsval \<Rightarrow> bool" where
  "truthy JUndefined = False"
| "truthy JNull = False"
| "truthy (JBool b) = b"
| "truthy (JStr s) = (s \<noteq> [])"
| "truthy (JObj kvs) = True"

text \<open>\<^verbatim>\<open>String(v)\<close>\<close>

fun to_string :: "jsval \<Rightarrow> string" where
  "to_string JUndefined = ''undefined''"
| "to_string JNull = ''null''"
| "to_string (JBool b) = (if b then ''true'' else ''false'')"
| "to_string (JStr s) = s"
| "to_string (JObj kvs) = ''[object Object]''"

text \<open>
  The own property \<open>k\<close> of a record, if it has one (\<^verbatim>\<open>Object.hasOwn(r, k)\<close>). This is
  what \<^verbatim>\<open>r[k]\<close> reads when \<open>k\<close> is not the name of a member of \<^verbatim>\<open>Object.prototype\<close>.
\<close>

definition rec_get :: "'v js_record \<Rightarrow> string \<Rightarrow> 'v option" where
  "rec_get r k = map_of r k"

text \<open>
  The read \<^verbatim>\<open>r[k]\<close> for any key. The records of the store are plain objects: a key that
  is not an own property is looked up in \<^verbatim>\<open>Object.prototype\<close>, whose members are listed
  here. Eleven of them are functions and \<^verbatim>\<open>__proto__\<close> reads \<^verbatim>\<open>Object.prototype\<close> itself,
  so an inherited member is always truthy. None of them has a property with the name of
  an option that the source reads from a configuration (\<^verbatim>\<open>apiKey\<close>, \<^verbatim>\<open>baseUrl\<close>,
  \<^verbatim>\<open>headers\<close>, \<^verbatim>\<open>accountId\<close>, \<^verbatim>\<open>apiVersion\<close>, \<^verbatim>\<open>app\<close>, \<^verbatim>\<open>modelId\<close>, \<^verbatim>\<open>region\<close>,
  \<^verbatim>\<open>resourceName\<close>) or of a metadata field read below (\<^verbatim>\<open>id\<close>, \<^verbatim>\<open>isAvailableBy\<close>,
  \<^verbatim>\<open>defaultOptions\<close>, \<^verbatim>\<open>capabilities\<close>, \<^verbatim>\<open>validators\<close>). A read has three outcomes: the
  own entry, an inherited member, or \<^verbatim>\<open>undefined\<close> (\<open>Missing\<close>).
\<close>

definition object_prototype_names :: "string list" where
  "object_prototype_names =
     [''constructor'', ''__defineGetter__'', ''__defineSetter__'', ''hasOwnProperty'',
      ''__lookupGetter__'', ''__lookupSetter__'', ''isPrototypeOf'', ''propertyIsEnumerable'',
      ''toString'', ''valueOf'', ''__proto__'', ''toLocaleString'']"

datatype 'v js_read = Own 'v | Inherited | Missing

definition rec_read :: "'v js_record \<Rightarrow> string \<Rightarrow> 'v js_read" where
  "rec_read r k =
     (case map_of r k of
        Some v \<Rightarrow> Own v
      | None \<Rightarrow> if k \<in> set object_prototype_names then Inherited else Missing)"

text \<open>\<^verbatim>\<open>!!r[k]\<close>, for a record whose entries are objects.\<close>

definition truthy_read :: "'v js_read \<Rightarrow> bool" where
  "truthy_read x = (case x of Missing \<Rightarrow> False | Own v \<Rightarrow> True | Inherited \<Rightarrow> True)"

text \<open>
  What the code that is handed the result of a read as a configuration finds in it: the
  own entry, and no option at all in an inherited member.
\<close>

definition seen_config :: "(string \<times> jsval) list js_read \<Rightarrow> (string \<times> jsval) list" where
  "seen_config x = (case x of Own c \<Rightarrow> c | Inherited \<Rightarrow> [] | Missing \<Rightarrow> [])"

text \<open>\<^verbatim>\<open>r[k] = v\<close>: an existing property keeps its place, a new one goes last.\<close>

fun rec_set :: "'v js_record \<Rightarrow> string \<Rightarrow> 'v \<Rightarrow> 'v js_record" where
  "rec_set [] k v = [(k, v)]"
| "rec_set ((k', v') # r) k v =
     (if k' = k then (k, v) # r else (k', v') # rec_set r k v)"

text \<open>\<^verbatim>\<open>Object.keys(r)\<close> and \<^verbatim>\<open>Object.values(r)\<close>\<close>

definition rec_keys :: "'v js_record \<Rightarrow> string list" where
  "rec_keys r = map fst r"

definition rec_values :: "'v js_record \<Rightarrow> 'v list" where
  "rec_values r = map snd r"

text \<open>\<^verbatim>\<open>config.k\<close> on a configuration object: a missing property reads \<^verbatim>\<open>undefined\<close>.\<close>

definition getp :: "config \<Rightarrow> string \<Rightarrow> jsval" where
  "getp c k = (case map_of c k of None \<Rightarrow> JUndefined | Some v \<Rightarrow> v)"

text \<open>
  An \<^verbatim>\<open>Error\<close> object, with its \<^verbatim>\<open>name\<close> and \<^verbatim>\<open>message\<close>. What a \<^verbatim>\<open>throw\<close> or a
  rejected promise carries is either such an object or any other value.
\<close>

datatype js_error = JsError (err_name: string) (err_message: string)

datatype thrown = ThrownError js_error | ThrownValue jsval

text \<open>\<^verbatim>\<open>String(e)\<close> for an \<^verbatim>\<open>Error\<close> object (\<^verbatim>\<open>Error.prototype.toString\<close>).\<close>

definition error_to_string :: "js_error \<Rightarrow> string" where
  "error_to_string e =
     (if err_name e = [] then err_message e
      else if err_message e = [] then err_name e
      else err_name e @ '': '' @ err_message e)"

definition thrown_to_string :: "thrown \<Rightarrow> string" where
  "thrown_to_string x =
     (case x of ThrownError e \<Rightarrow> error_to_string e | ThrownValue v \<Rightarrow> to_string v)"

text \<open>\<^verbatim>\<open>xs.join(', ')\<close>\<close>

fun join_comma :: "string list \<Rightarrow> string" where
  "join_comma [] = []"
| "join_comma [x] = x"
| "join_comma (x # y # ys) = x @ '', '' @ join_comma (y # ys)"

text \<open>
  \<^verbatim>\<open>s.trim()\<close> strips white space and line terminators from both ends. Below 256 these
  are the six ASCII characters and the no-break space U+00A0; the others (U+1680,
  U+2000 to U+200A, U+2028, U+2029, U+202F, U+205F, U+3000, U+FEFF) are code units that
  the strings here do not contain.
\<close>

definition is_space :: "char \<Rightarrow> bool" where
  "is_space c =
     (c \<in> set [CHR '' '', CHR 0x09, CHR 0x0A, CHR 0x0B, CHR 0x0C, CHR 0x0D, CHR 0xA0])"

definition trim :: "string \<Rightarrow> string" where
  "trim s = rev (dropWhile is_space (rev (dropWhile is_space s)))"

section \<open>Provider metadata\<close>

datatype category = Chat | Embed | Speech | Transcription

text \<open>The entries of a model list (\<^verbatim>\<open>ModelInfo\<close>); optional fields are options.\<close>

record model_info =
  model_id :: string
  model_name :: string
  model_provider :: string
  model_description :: "string option"
  model_capabilities :: "string list option"
  model_contextLength :: "int option"
  model_deprecated :: "bool option"

record validation_result =
  errors :: "thrown list"
  reason :: string
  valid :: bool

text \<open>
  \<^verbatim>\<open>ProviderMetadata\<close>, with the fields the store's logic reads. A hook that may be
  absent is an option. A hook that awaits the network or the platform is a function to
  the outcome of its promise: \<open>Inl\<close> when it throws or rejects, \<open>Inr\<close> when it resolves.
  \<^verbatim>\<open>isAvailableBy\<close> takes no argument, so it is the outcome itself. The display strings,
  the icon and \<^verbatim>\<open>createProvider\<close> are left out.
\<close>

record provider_metadata =
  provider_id :: string
  category :: category
  isAvailableBy :: "(thrown + bool) option"
  defaultOptions :: "(unit \<Rightarrow> config) option"
  listModels :: "(config \<Rightarrow> thrown + model_info list) option"
  validateProviderConfig :: "config \<Rightarrow> thrown + validation_result"

text \<open>The response of \<^verbatim>\<open>fetch\<close>, as far as the validators read it.\<close>

record response =
  ok :: bool
  statusText :: string

text \<open>
  What the store imports from outside this repository's sources, taken as parameters:
  \<^verbatim>\<open>isAbsoluteUrl\<close> (from \<^verbatim>\<open>../utils/string\<close>, assumed not to throw), the global
  \<^verbatim>\<open>fetch\<close> (URL and headers to outcome), the vendor calls behind each provider's
  \<^verbatim>\<open>listModels\<close> capability (by provider id), \<^verbatim>\<open>isWebGPUSupported\<close> and
  \<^verbatim>\<open>navigator.deviceMemory\<close> (\<open>None\<close> when it is not a number).
\<close>

record externals =
  isAbsoluteUrl :: "jsval \<Rightarrow> bool"
  fetch :: "string \<Rightarrow> jsval \<Rightarrow> thrown + response"
  listModelsCall :: "string \<Rightarrow> config \<Rightarrow> thrown + model_info list"
  isWebGPUSupported :: "thrown + bool"
  deviceMemory :: "real option"

definition notBaseUrlError :: validation_result where
  "notBaseUrlError =
     \<lparr>errors = [ThrownError (JsError ''Error'' ''Base URL is not absolute'')],
      reason = ''Base URL is not absolute. Check your input.'',
      valid = False\<rparr>"

text \<open>
  \<^verbatim>\<open>[!config.k && new Error(msg), ...].filter(Boolean)\<close>: one \<^verbatim>\<open>Error\<close> for every listed
  property that is falsy, in the order listed.
\<close>

fun missing_errors :: "config \<Rightarrow> (string \<times> string) list \<Rightarrow> js_error list" where
  "missing_errors c [] = []"
| "missing_errors c ((k, msg) # rest) =
     (if \<not> truthy (getp c k) then JsError ''Error'' msg # missing_errors c rest
      else missing_errors c rest)"

text \<open>\<^verbatim>\<open>errors.filter(e => e).map(e => String(e)).join(', ') || ''\<close>\<close>

definition reason_of :: "js_error list \<Rightarrow> string" where
  "reason_of es = join_comma (map error_to_string es)"

subsection \<open>\<^verbatim>\<open>providerMetadata['openrouter-ai']\<close>\<close>

definition openrouter_validateProviderConfig ::
  "externals \<Rightarrow> config \<Rightarrow> thrown + validation_result" where
  "openrouter_validateProviderConfig ext c =
     (let es = missing_errors c
                 [(''apiKey'', ''API key is required''), (''baseUrl'', ''Base URL is required'')]
      in if truthy (getp c ''baseUrl'') \<and> \<not> isAbsoluteUrl ext (getp c ''baseUrl'')
         then Inr notBaseUrlError
         else Inr \<lparr>errors = map ThrownError es,
                   reason = reason_of es,
                   valid = (truthy (getp c ''apiKey'') \<and> truthy (getp c ''baseUrl''))\<rparr>)"

definition openrouter_ai :: "externals \<Rightarrow> provider_metadata" where
  "openrouter_ai ext =
     \<lparr>provider_id = ''openrouter-ai'',
      category = Chat,
      isAvailableBy = None,
      defaultOptions = Some (\<lambda>_. [(''baseUrl'', JStr ''https://openrouter.ai/api/v1/'')]),
      listModels = Some (listModelsCall ext ''openrouter-ai''),
      validateProviderConfig = openrouter_validateProviderConfig ext\<rparr>"

subsection \<open>\<^verbatim>\<open>providerMetadata['browser-local-audio-speech']\<close>\<close>

definition browser_local_isAvailableBy :: "externals \<Rightarrow> thrown + bool" where
  "browser_local_isAvailableBy ext =
     (case isWebGPUSupported ext of
        Inl e \<Rightarrow> Inl e
      | Inr webGPUAvailable \<Rightarrow>
          if webGPUAvailable then Inr True
          else (case deviceMemory ext of
                  Some memory \<Rightarrow> if memory \<ge> 8 then Inr True else Inr False
                | None \<Rightarrow> Inr False))"

definition browser_local_validateProviderConfig :: "config \<Rightarrow> thrown + validation_result" where
  "browser_local_validateProviderConfig c =
     (if \<not> truthy (getp c ''baseUrl'')
      then Inr \<lparr>errors = [ThrownError (JsError ''Error'' ''Base URL is required.'')],
                reason = ''Base URL is required. This is likely a bug, report to developers on https://github.com/moeru-ai/airi/issues.'',
                valid = False\<rparr>
      else Inr \<lparr>errors = [], reason = [], valid = True\<rparr>)"

definition browser_local_audio_speech :: "externals \<Rightarrow> provider_metadata" where
  "browser_local_audio_speech ext =
     \<lparr>provider_id = ''browser-local-audio-speech'',
      category = Speech,
      isAvailableBy = Some (browser_local_isAvailableBy ext),
      defaultOptions = Some (\<lambda>_. []),
      listModels = Some (listModelsCall ext ''browser-local-audio-speech''),
      validateProviderConfig = browser_local_validateProviderConfig\<rparr>"

subsection \<open>\<^verbatim>\<open>providerMetadata['ollama']\<close>\<close>

text \<open>
  The reachability probe: \<^verbatim>\<open>fetch(`${config.baseUrl.trim()}models`, {headers})\<close>, whose
  \<^verbatim>\<open>.then\<close> and \<^verbatim>\<open>.catch\<close> turn both outcomes into a resolved result. \<^verbatim>\<open>.trim()\<close> on
  a truthy value that is not a string throws before the probe is issued.
\<close>

definition ollama_unreachable_hint :: string where
  "ollama_unreachable_hint =
     '' occurred.'' @ [CHR 0x0A, CHR 0x0A] @
     ''If you are using Ollama locally, this is likely the CORS (Cross-Origin Resource Sharing) security issue, where you will need to set OLLAMA_ORIGINS=* or OLLAMA_ORIGINS=https://airi.moeru.ai,http://localhost environment variable before launching Ollama server to make this work.''"

definition ollama_validateProviderConfig ::
  "externals \<Rightarrow> config \<Rightarrow> thrown + validation_result" where
  "ollama_validateProviderConfig ext c =
     (if \<not> truthy (getp c ''baseUrl'')
      then Inr \<lparr>errors = [ThrownError (JsError ''Error'' ''Base URL is required.'')],
                reason = ''Base URL is required. Default to http://localhost:11434/v1/ for Ollama.'',
                valid = False\<rparr>
      else if \<not> isAbsoluteUrl ext (getp c ''baseUrl'') then Inr notBaseUrlError
      else (case getp c ''baseUrl'' of
              JStr s \<Rightarrow>
                (case fetch ext (trim s @ ''models'')
                        (if truthy (getp c ''headers'') then getp c ''headers'' else JUndefined) of
                   Inr r \<Rightarrow>
                     (let es = (if \<not> ok r
                                then [JsError ''Error''
                                        (''Ollama server returned non-ok status code: '' @ statusText r)]
                                else [])
                      in Inr \<lparr>errors = map ThrownError es, reason = reason_of es, valid = ok r\<rparr>)
                 | Inl err \<Rightarrow>
                     Inr \<lparr>errors = [err],
                          reason = ''Failed to reach Ollama server, error: '' @ thrown_to_string err
                                     @ ollama_unreachable_hint,
                          valid = False\<rparr>)
            | _ \<Rightarrow> Inl (ThrownError (JsError ''TypeError'' ''config.baseUrl.trim is not a function''))))"

definition ollama :: "externals \<Rightarrow> provider_metadata" where
  "ollama ext =
     \<lparr>provider_id = ''ollama'',
      category = Chat,
      isAvailableBy = None,
      defaultOptions = Some (\<lambda>_. [(''baseUrl'', JStr ''http://localhost:11434/v1/'')]),
      listModels = Some (listModelsCall ext ''ollama''),
      validateProviderConfig = ollama_validateProviderConfig ext\<rparr>"

subsection \<open>\<^verbatim>\<open>providerMetadata['xai']\<close>\<close>

definition xai_validateProviderConfig :: "config \<Rightarrow> thrown + validation_result" where
  "xai_validateProviderConfig c =
     (let es = missing_errors c
                 [(''apiKey'', ''API key is required.''), (''baseUrl'', ''Base URL is required.'')]
      in Inr \<lparr>errors = map ThrownError es,
               reason = reason_of es,
               valid = (truthy (getp c ''apiKey'') \<and> truthy (getp c ''baseUrl''))\<rparr>)"

definition xai :: "externals \<Rightarrow> provider_metadata" where
  "xai ext =
     \<lparr>provider_id = ''xai'',
      category = Chat,
      isAvailableBy = None,
      defaultOptions = None,
      listModels = Some (listModelsCall ext ''xai''),
      validateProviderConfig = xai_validateProviderConfig\<rparr>"

text \<open>
  The table \<^verbatim>\<open>providerMetadata\<close>, keyed by id: four of its entries, in the order of the
  source. The store's functions below take the table as an argument, and what is proved
  of them for every table holds for the whole one.
\<close>

definition providerMetadata :: "externals \<Rightarrow> provider_metadata js_record" where
  "providerMetadata ext =
     [(''openrouter-ai'', openrouter_ai ext),
      (''browser-local-audio-speech'', browser_local_audio_speech ext),
      (''ollama'', ollama ext),
      (''xai'', xai ext)]"

section \<open>The provider store\<close>

text \<open>
  The reactive state of \<^verbatim>\<open>useProvidersStore\<close>. \<^verbatim>\<open>providerCredentials\<close> is the persisted
  record of configurations; the other four are tables from ids to their own entries. An
  entry of \<^verbatim>\<open>modelLoadError\<close> is \<^verbatim>\<open>string | null\<close>: \<open>Some None\<close> is \<^verbatim>\<open>null\<close>.
\<close>

record store =
  providerCredentials :: "config js_record"
  configuredProviders :: "string \<rightharpoonup> bool"
  availableModels :: "string \<rightharpoonup> model_info list"
  isLoadingModels :: "string \<rightharpoonup> bool"
  modelLoadError :: "string \<rightharpoonup> string option"

text \<open>
  The \<^verbatim>\<open>TypeError\<close> that the engine throws when the property \<open>field\<close> is read from
  \<^verbatim>\<open>undefined\<close>. The message is worded by the engine: the text here is V8's, other
  engines have other texts, and the statements below say of such an error only that it
  is a \<^verbatim>\<open>TypeError\<close>.
\<close>

definition undefined_read :: "string \<Rightarrow> thrown" where
  "undefined_read field =
     ThrownError (JsError ''TypeError''
       (''Cannot read properties of undefined (reading '' @ [CHR 0x27] @ field @ [CHR 0x27] @ '')''))"

definition is_TypeError :: "thrown \<Rightarrow> bool" where
  "is_TypeError x =
     (case x of ThrownError e \<Rightarrow> err_name e = ''TypeError'' | ThrownValue v \<Rightarrow> False)"

text \<open>
  \<^verbatim>\<open>initializeProvider\<close>. The guard \<^verbatim>\<open>!providerCredentials.value[providerId]\<close> is false for
  an own entry (an object) and for an inherited member alike: then nothing is done. In
  the other branch \<^verbatim>\<open>metadata.defaultOptions\<close> is read without a test of \<^verbatim>\<open>metadata\<close>:
  when the table read is \<^verbatim>\<open>undefined\<close>, that read throws. (The two reads have the same
  key, so after a \<open>Missing\<close> configuration the table read is never \<open>Inherited\<close>; the case
  is written out all the same: an inherited member has no \<^verbatim>\<open>defaultOptions\<close>.)
\<close>

definition initializeProvider ::
  "provider_metadata js_record \<Rightarrow> string \<Rightarrow> 'a store_scheme \<Rightarrow> thrown + 'a store_scheme" where
  "initializeProvider md providerId s =
     (case rec_read (providerCredentials s) providerId of
        Own c \<Rightarrow> Inr s
      | Inherited \<Rightarrow> Inr s
      | Missing \<Rightarrow>
          (case rec_read md providerId of
             Missing \<Rightarrow> Inl (undefined_read ''defaultOptions'')
           | Inherited \<Rightarrow>
               Inr (s\<lparr>providerCredentials :=
                         rec_set (providerCredentials s) providerId [(''baseUrl'', JStr [])]\<rparr>)
           | Own metadata \<Rightarrow>
               (let opts = (case defaultOptions metadata of None \<Rightarrow> [] | Some f \<Rightarrow> f ());
                    b = getp opts ''baseUrl''
                in Inr (s\<lparr>providerCredentials :=
                           rec_set (providerCredentials s) providerId
                             [(''baseUrl'', if truthy b then b else JStr [])]\<rparr>))))"

text \<open>
  \<^verbatim>\<open>validateProvider\<close>: \<open>Inr b\<close> is a promise resolved to \<open>b\<close>, \<open>Inl e\<close> one rejected
  with \<open>e\<close>. Each guard returns \<^verbatim>\<open>false\<close> when its read is \<^verbatim>\<open>undefined\<close> and lets an own
  entry and an inherited member pass. On an inherited member as \<^verbatim>\<open>metadata\<close>,
  \<^verbatim>\<open>metadata.validators\<close> is \<^verbatim>\<open>undefined\<close> and reading \<^verbatim>\<open>validateProviderConfig\<close> from it
  throws. The result of the hook is awaited without a \<^verbatim>\<open>try\<close>, and an invalid outcome
  is thrown as \<^verbatim>\<open>new Error(validationResult.reason)\<close>.
\<close>

definition validateProvider ::
  "provider_metadata js_record \<Rightarrow> string \<Rightarrow> store \<Rightarrow> thrown + bool" where
  "validateProvider md providerId s =
     (let config = rec_read (providerCredentials s) providerId
      in if \<not> truthy_read config then Inr False
         else (case rec_read md providerId of
                 Missing \<Rightarrow> Inr False
               | Inherited \<Rightarrow> Inl (undefined_read ''validateProviderConfig'')
               | Own metadata \<Rightarrow>
                   (case validateProviderConfig metadata (seen_config config) of
                      Inl e \<Rightarrow> Inl e
                    | Inr validationResult \<Rightarrow>
                        if \<not> valid validationResult
                        then Inl (ThrownError (JsError ''Error'' (reason validationResult)))
                        else Inr (valid validationResult))))"

text \<open>
  \<^verbatim>\<open>updateConfigurationStatus\<close>: one \<^verbatim>\<open>try\<close>/\<^verbatim>\<open>catch\<close> around \<^verbatim>\<open>validateProvider\<close> for
  every key of the table. The closures write to different entries and read only the
  credentials, so the order in which their promises settle does not show; the model
  takes the order of the keys.
\<close>

definition record_status ::
  "provider_metadata js_record \<Rightarrow> store \<Rightarrow> string \<Rightarrow> store" where
  "record_status md s providerId =
     s\<lparr>configuredProviders := (configuredProviders s)
          (providerId \<mapsto> (case validateProvider md providerId s of
                              Inr b \<Rightarrow> b
                            | Inl e \<Rightarrow> False))\<rparr>"

definition updateConfigurationStatus :: "provider_metadata js_record \<Rightarrow> store \<Rightarrow> store" where
  "updateConfigurationStatus md s = foldl (record_status md) s (rec_keys md)"

text \<open>
  \<^verbatim>\<open>fetchModelsForProvider\<close>, in the three parts that the \<^verbatim>\<open>await\<close> separates: the part
  before it (\<open>None\<close> is the early \<^verbatim>\<open>return []\<close>), the outcome of the awaited
  \<^verbatim>\<open>listModels\<close> call, and the rest of the \<^verbatim>\<open>try\<close> with its \<^verbatim>\<open>catch\<close> and \<^verbatim>\<open>finally\<close>,
  which returns the list and the store. The guards are those of \<^verbatim>\<open>validateProvider\<close>. On
  an inherited member as \<^verbatim>\<open>metadata\<close>, \<^verbatim>\<open>metadata.capabilities\<close> is \<^verbatim>\<open>undefined\<close> and the
  read of \<^verbatim>\<open>listModels\<close> throws inside the \<^verbatim>\<open>try\<close>. The outcome is only asked for after
  the guards have passed.

  The three tables of the catalogue are maps from ids to entries, and an assignment
  makes an entry. (For the one key \<^verbatim>\<open>__proto__\<close> an assignment goes through the setter
  of the prototype and does not simply make an entry, which the maps do not model. The
  table of the source has no entry of that name, and no statement below is about a
  fetch for that id under it.)
\<close>

definition transform_model :: "string \<Rightarrow> model_info \<Rightarrow> model_info" where
  "transform_model providerId model =
     \<lparr>model_id = model_id model,
      model_name = model_name model,
      model_provider = providerId,
      model_description = model_description model,
      model_capabilities = None,
      model_contextLength = model_contextLength model,
      model_deprecated = model_deprecated model\<rparr>"

definition fetchModels_start ::
  "provider_metadata js_record \<Rightarrow> string \<Rightarrow> store \<Rightarrow> store option" where
  "fetchModels_start md providerId s =
     (if \<not> truthy_read (rec_read (providerCredentials s) providerId) then None
      else if \<not> truthy_read (rec_read md providerId) then None
      else Some (s\<lparr>isLoadingModels := (isLoadingModels s)(providerId \<mapsto> True),
                    modelLoadError := (modelLoadError s)(providerId \<mapsto> None)\<rparr>))"

definition fetchModels_outcome ::
  "provider_metadata js_record \<Rightarrow> string \<Rightarrow> store \<Rightarrow> thrown + model_info list" where
  "fetchModels_outcome md providerId s =
     (case rec_read md providerId of
        Own metadata \<Rightarrow>
          (case listModels metadata of
             None \<Rightarrow> Inr []
           | Some f \<Rightarrow> f (seen_config (rec_read (providerCredentials s) providerId)))
      | Inherited \<Rightarrow> Inl (undefined_read ''listModels'')
      | Missing \<Rightarrow> Inr [])"

text \<open>\<^verbatim>\<open>error instanceof Error ? error.message : 'Unknown error'\<close>\<close>

definition load_error_message :: "thrown \<Rightarrow> string" where
  "load_error_message x =
     (case x of ThrownError e \<Rightarrow> err_message e | ThrownValue v \<Rightarrow> ''Unknown error'')"

definition fetchModels_settle ::
  "string \<Rightarrow> thrown + model_info list \<Rightarrow> store \<Rightarrow> model_info list \<times> store" where
  "fetchModels_settle providerId outcome s =
     (case outcome of
        Inr models \<Rightarrow>
          (let stored = map (transform_model providerId) models
           in (stored,
               s\<lparr>availableModels := (availableModels s)(providerId \<mapsto> stored),
                 isLoadingModels := (isLoadingModels s)(providerId \<mapsto> False)\<rparr>))
      | Inl error \<Rightarrow>
          ([],
           s\<lparr>modelLoadError := (modelLoadError s)(providerId \<mapsto> Some (load_error_message error)),
             isLoadingModels := (isLoadingModels s)(providerId \<mapsto> False)\<rparr>))"

text \<open>The call run on its own, with nothing else scheduled between its parts.\<close>

definition fetchModelsForProvider ::
  "provider_metadata js_record \<Rightarrow> string \<Rightarrow> store \<Rightarrow> model_info list \<times> store" where
  "fetchModelsForProvider md providerId s =
     (case fetchModels_start md providerId s of
        None \<Rightarrow> ([], s)
      | Some s1 \<Rightarrow> fetchModels_settle providerId (fetchModels_outcome md providerId s) s1)"

text \<open>
  The second watcher of \<^verbatim>\<open>providerCredentials\<close>. \<^verbatim>\<open>JSON.stringify\<close> is its parameter
  \<open>stringify\<close>, on a configuration or on \<^verbatim>\<open>undefined\<close> (\<open>None\<close>). \<open>old_entry\<close> is the own
  entry of the old value, if there is an old value and it has one. What
  \<^verbatim>\<open>oldCreds?.[providerId]\<close> reads otherwise is \<^verbatim>\<open>undefined\<close> or an inherited member, and
  \<^verbatim>\<open>JSON.stringify\<close> gives for a function what it gives for \<^verbatim>\<open>undefined\<close>, and for
  \<^verbatim>\<open>Object.prototype\<close> what it gives for an object without properties: \<open>old_read\<close> is the
  argument with which \<open>stringify\<close> has the result of that call. The ids that are
  filtered are own keys of the new value.

  In the loop, \<^verbatim>\<open>configuredProviders.value[providerId]\<close> is truthy for an entry \<^verbatim>\<open>true\<close>
  and for an inherited member, and \<^verbatim>\<open>providerMetadata[providerId]?.capabilities.listModels\<close>
  throws on an inherited member, which ends the callback. The calls of
  \<^verbatim>\<open>fetchModelsForProvider\<close> are not awaited: the callback runs each one up to its
  \<^verbatim>\<open>await\<close> and leaves it pending, so the callback returns the store and the pending
  calls, each with the outcome its \<^verbatim>\<open>listModels\<close> promise will have.
\<close>

definition old_entry :: "config js_record option \<Rightarrow> string \<Rightarrow> config option" where
  "old_entry oldCreds providerId =
     (case oldCreds of None \<Rightarrow> None | Some oc \<Rightarrow> rec_get oc providerId)"

definition old_read :: "config js_record option \<Rightarrow> string \<Rightarrow> config option" where
  "old_read oldCreds providerId =
     (case oldCreds of
        None \<Rightarrow> None
      | Some oc \<Rightarrow>
          (case rec_read oc providerId of
             Own c \<Rightarrow> Some c
           | Inherited \<Rightarrow> if providerId = ''__proto__'' then Some [] else None
           | Missing \<Rightarrow> None))"

definition changedProviders ::
  "(config option \<Rightarrow> string option) \<Rightarrow> config js_record \<Rightarrow> config js_record option \<Rightarrow> string list" where
  "changedProviders stringify newCreds oldCreds =
     filter (\<lambda>providerId. stringify (rec_get newCreds providerId)
                            \<noteq> stringify (old_read oldCreds providerId))
       (rec_keys newCreds)"

definition configured_truthy :: "store \<Rightarrow> string \<Rightarrow> bool" where
  "configured_truthy s providerId =
     (case configuredProviders s providerId of
        Some b \<Rightarrow> b
      | None \<Rightarrow> providerId \<in> set object_prototype_names)"

type_synonym pending_fetch = "string \<times> (thrown + model_info list)"

fun refetch_changed ::
  "provider_metadata js_record \<Rightarrow> string list \<Rightarrow> store \<times> pending_fetch list
     \<Rightarrow> store \<times> pending_fetch list" where
  "refetch_changed md [] (s, pending) = (s, pending)"
| "refetch_changed md (providerId # rest) (s, pending) =
     (if configured_truthy s providerId
      then (case rec_read md providerId of
              Inherited \<Rightarrow> (s, pending)
            | Missing \<Rightarrow> refetch_changed md rest (s, pending)
            | Own metadata \<Rightarrow>
                if listModels metadata \<noteq> None
                then (case fetchModels_start md providerId s of
                        None \<Rightarrow> refetch_changed md rest (s, pending)
                      | Some s1 \<Rightarrow>
                          refetch_changed md rest
                            (s1, pending @ [(providerId, fetchModels_outcome md providerId s)]))
                else refetch_changed md rest (s, pending))
      else refetch_changed md rest (s, pending))"

definition credentials_watcher ::
  "(config option \<Rightarrow> string option) \<Rightarrow> provider_metadata js_record
     \<Rightarrow> config js_record \<Rightarrow> config js_record option \<Rightarrow> store \<Rightarrow> store \<times> pending_fetch list" where
  "credentials_watcher stringify md newCreds oldCreds s =
     refetch_changed md (changedProviders stringify newCreds oldCreds) (s, [])"

text \<open>
  What a change of the credentials leaves to complete later, in any order: a closure of
  \<^verbatim>\<open>updateConfigurationStatus\<close> writing the status that it found (\<^verbatim>\<open>true\<close>, or \<^verbatim>\<open>false\<close>
  from its \<^verbatim>\<open>catch\<close>), and a pending call of \<^verbatim>\<open>fetchModelsForProvider\<close> settling.
  A completion comes \<open>from_watcher\<close> when, if it is a fetch that settles, it is one of
  the pending calls the watcher left.
\<close>

datatype completion =
    StatusKnown string bool
  | ModelsSettled string "thrown + model_info list"

fun apply_completion :: "store \<Rightarrow> completion \<Rightarrow> store" where
  "apply_completion s (StatusKnown providerId b) =
     s\<lparr>configuredProviders := (configuredProviders s)(providerId \<mapsto> b)\<rparr>"
| "apply_completion s (ModelsSettled providerId outcome) = snd (fetchModels_settle providerId outcome s)"

definition from_watcher :: "pending_fetch list \<Rightarrow> completion \<Rightarrow> bool" where
  "from_watcher pending c =
     (case c of
        StatusKnown providerId b \<Rightarrow> True
      | ModelsSettled providerId outcome \<Rightarrow> (providerId, outcome) \<in> set pending)"

text \<open>
  \<^verbatim>\<open>getProviderMetadata\<close> throws when the table read is \<^verbatim>\<open>undefined\<close> and returns the
  spread of what it read with two localized strings added, which are left out here. For
  an own entry that is the entry (\<open>Some\<close>). An inherited member passes the test and has
  no enumerable property of its own, so the object returned has the two strings and
  nothing of a descriptor (\<open>None\<close>).

  The loop of \<^verbatim>\<open>availableProvidersMetadata\<close> goes over \<^verbatim>\<open>allProvidersMetadata\<close>, which is
  \<^verbatim>\<open>Object.values(providerMetadata)\<close> (again without the added display fields). It
  awaits each predicate in turn, with no \<^verbatim>\<open>try\<close>: \<open>Inl\<close> is the rejection of the
  asynchronous getter.
\<close>

definition getProviderMetadata ::
  "provider_metadata js_record \<Rightarrow> string \<Rightarrow> thrown + provider_metadata option" where
  "getProviderMetadata md providerId =
     (case rec_read md providerId of
        Missing \<Rightarrow> Inl (ThrownError (JsError ''Error''
                          (''Provider metadata for '' @ providerId @ '' not found'')))
      | Own metadata \<Rightarrow> Inr (Some metadata)
      | Inherited \<Rightarrow> Inr None)"

definition allProvidersMetadata :: "provider_metadata js_record \<Rightarrow> provider_metadata list" where
  "allProvidersMetadata md = rec_values md"

text \<open>\<^verbatim>\<open>await (p.isAvailableBy || (() => true))()\<close>\<close>

definition availability :: "provider_metadata \<Rightarrow> thrown + bool" where
  "availability p = (case isAvailableBy p of None \<Rightarrow> Inr True | Some r \<Rightarrow> r)"

fun availability_loop ::
  "provider_metadata js_record \<Rightarrow> provider_metadata list \<Rightarrow> provider_metadata list
     \<Rightarrow> thrown + provider_metadata list" where
  "availability_loop md [] providers = Inr providers"
| "availability_loop md (provider # rest) providers =
     (case getProviderMetadata md (provider_id provider) of
        Inl e \<Rightarrow> Inl e
      | Inr p \<Rightarrow>
          (case (case p of None \<Rightarrow> Inr True | Some metadata \<Rightarrow> availability metadata) of
             Inl e \<Rightarrow> Inl e
           | Inr isAvailable \<Rightarrow>
               availability_loop md rest
                 (if isAvailable then providers @ [provider] else providers)))"

definition availableProvidersMetadata ::
  "provider_metadata js_record \<Rightarrow> thrown + provider_metadata list" where
  "availableProvidersMetadata md = availability_loop md (allProvidersMetadata md) []"

text \<open>
  The table as the source writes it: every entry's \<^verbatim>\<open>id\<close> is its key, and an object
  has each key once.
\<close>

definition wf_table :: "provider_metadata js_record \<Rightarrow> bool" where
  "wf_table md = (distinct (rec_keys md) \<and> list_all (\<lambda>(k, m). provider_id m = k) md)"

section \<open>The settings page of a provider\<close>

text \<open>
  The page of \<^verbatim>\<open>xai\<close>. Its \<^verbatim>\<open>providerId\<close> is a constant of the source (\<^verbatim>\<open>'xai'\<close>; the page
  of \<^verbatim>\<open>ollama\<close> has \<^verbatim>\<open>'ollama'\<close>), which the functions below take as an argument. These
  ids are not names of members of \<^verbatim>\<open>Object.prototype\<close>, so what the page reads at
  \<^verbatim>\<open>providers.value[providerId]\<close> is the own entry or \<^verbatim>\<open>undefined\<close>: \<open>rec_get\<close>.

  The page works on the store's \<^verbatim>\<open>providers\<close> (the credentials) and on
  three refs of its own, among them the counter \<^verbatim>\<open>isValidating\<close>. A call of
  \<^verbatim>\<open>validateConfiguration\<close> that has started and not finished is kept in \<open>inflight\<close>:
  first it awaits the validator (\<open>Awaiting\<close>, with the outcome the promise will have),
  then its \<^verbatim>\<open>finally\<close> has set the timer whose callback ends it (\<open>Delayed\<close>, with
  \<^verbatim>\<open>finalValidationMessage\<close>). \<open>debounce_armed\<close> says that the timer of
  \<^verbatim>\<open>useDebounceFn\<close> is running. Time itself is not modelled: timers and promises
  complete in any order.
\<close>

datatype validation_call = Awaiting "thrown + validation_result" | Delayed string

record settings_page = store +
  isValidating :: int
  isValid :: bool
  validationMessage :: string
  inflight :: "validation_call list"
  debounce_armed :: bool

text \<open>The getter \<^verbatim>\<open>providers.value[providerId]?.k || ''\<close> and the setter of the computed refs.\<close>

definition field_get :: "string \<Rightarrow> string \<Rightarrow> settings_page \<Rightarrow> jsval" where
  "field_get providerId k page =
     (case rec_get (providerCredentials page) providerId of
        None \<Rightarrow> JStr []
      | Some c \<Rightarrow> if truthy (getp c k) then getp c k else JStr [])"

definition field_set :: "string \<Rightarrow> string \<Rightarrow> jsval \<Rightarrow> settings_page \<Rightarrow> settings_page" where
  "field_set providerId k v page =
     page\<lparr>providerCredentials :=
       rec_set (providerCredentials page) providerId
         (rec_set (case rec_get (providerCredentials page) providerId of
                     None \<Rightarrow> []
                   | Some c \<Rightarrow> c) k v)\<rparr>"

text \<open>\<^verbatim>\<open>v.trim()\<close> on the value of a getter: only a string has the method.\<close>

definition trim_value :: "jsval \<Rightarrow> thrown + string" where
  "trim_value v =
     (case v of
        JStr s \<Rightarrow> Inr (trim s)
      | _ \<Rightarrow> Inl (ThrownError (JsError ''TypeError'' ''trim is not a function'')))"

text \<open>\<^verbatim>\<open>error instanceof Error ? error.message : String(error)\<close>\<close>

definition catch_message :: "thrown \<Rightarrow> string" where
  "catch_message x = (case x of ThrownError e \<Rightarrow> err_message e | ThrownValue v \<Rightarrow> to_string v)"

text \<open>
  The handlers are functions on the state: an exception ends a handler and leaves the
  state as it was at that point. \<open>t\<close> is the lookup of the message
  \<^verbatim>\<open>settings.dialogs.onboarding.validationError\<close>, a function of the error text.

  \<^verbatim>\<open>validateConfiguration\<close> up to its \<^verbatim>\<open>await\<close>: reading \<^verbatim>\<open>providerMetadata.value\<close> throws
  when \<^verbatim>\<open>getProviderMetadata\<close> does; an exception of \<^verbatim>\<open>trim\<close> is inside the \<^verbatim>\<open>try\<close>, so
  the \<^verbatim>\<open>catch\<close> and the \<^verbatim>\<open>finally\<close> run at once, and so they do when the object that
  \<^verbatim>\<open>getProviderMetadata\<close> returned has no \<^verbatim>\<open>validators\<close>.
\<close>

definition validateConfiguration ::
  "provider_metadata js_record \<Rightarrow> (string \<Rightarrow> string) \<Rightarrow> string \<Rightarrow> settings_page \<Rightarrow> settings_page" where
  "validateConfiguration md t providerId page =
     (case getProviderMetadata md providerId of
        Inl e \<Rightarrow> page
      | Inr metadata \<Rightarrow>
          (let page1 = page\<lparr>isValidating := isValidating page + 1, validationMessage := []\<rparr>
           in case trim_value (field_get providerId ''apiKey'' page1) of
                Inl e \<Rightarrow>
                  page1\<lparr>isValid := False,
                        inflight := inflight page1 @ [Delayed (t (catch_message e))]\<rparr>
              | Inr a \<Rightarrow>
                  (case trim_value (field_get providerId ''baseUrl'' page1) of
                     Inl e \<Rightarrow>
                       page1\<lparr>isValid := False,
                             inflight := inflight page1 @ [Delayed (t (catch_message e))]\<rparr>
                   | Inr b \<Rightarrow>
                       (case metadata of
                          Some m \<Rightarrow>
                            page1\<lparr>inflight := inflight page1 @
                              [Awaiting (validateProviderConfig m
                                           [(''apiKey'', JStr a), (''baseUrl'', JStr b)])]\<rparr>
                        | None \<Rightarrow>
                            page1\<lparr>isValid := False,
                                  inflight := inflight page1 @
                                    [Delayed (t (catch_message
                                       (undefined_read ''validateProviderConfig'')))]\<rparr>))))"

text \<open>The rest of the \<^verbatim>\<open>try\<close>, the \<^verbatim>\<open>catch\<close> and the \<^verbatim>\<open>finally\<close>, once the promise of call \<open>i\<close> has settled.\<close>

definition validation_settled :: "(string \<Rightarrow> string) \<Rightarrow> nat \<Rightarrow> settings_page \<Rightarrow> settings_page" where
  "validation_settled t i page =
     (if i < length (inflight page)
      then (case inflight page ! i of
              Awaiting outcome \<Rightarrow>
                (case outcome of
                   Inr validationResult \<Rightarrow>
                     page\<lparr>isValid := valid validationResult,
                          inflight := (inflight page)
                            [i := Delayed (if \<not> valid validationResult
                                           then reason validationResult else [])]\<rparr>
                 | Inl error \<Rightarrow>
                     page\<lparr>isValid := False,
                          inflight := (inflight page)[i := Delayed (t (catch_message error))]\<rparr>)
            | Delayed final \<Rightarrow> page)
      else page)"

text \<open>The callback of the timer set in the \<^verbatim>\<open>finally\<close>: the call's completion handler.\<close>

definition timer_elapsed :: "nat \<Rightarrow> settings_page \<Rightarrow> settings_page" where
  "timer_elapsed i page =
     (if i < length (inflight page)
      then (case inflight page ! i of
              Delayed finalValidationMessage \<Rightarrow>
                page\<lparr>isValidating := isValidating page - 1,
                     validationMessage := finalValidationMessage,
                     inflight := take i (inflight page) @ drop (Suc i) (inflight page)\<rparr>
            | Awaiting outcome \<Rightarrow> page)
      else page)"

text \<open>The function given to \<^verbatim>\<open>useDebounceFn\<close>, and the end of the quiet period.\<close>

definition debounced_body ::
  "provider_metadata js_record \<Rightarrow> (string \<Rightarrow> string) \<Rightarrow> string \<Rightarrow> settings_page \<Rightarrow> settings_page" where
  "debounced_body md t providerId page =
     (case trim_value (field_get providerId ''apiKey'' page) of
        Inl e \<Rightarrow> page
      | Inr a \<Rightarrow>
          if a = []
          then page\<lparr>isValid := False, validationMessage := [], isValidating := 0\<rparr>
          else validateConfiguration md t providerId page)"

definition debounce_elapsed ::
  "provider_metadata js_record \<Rightarrow> (string \<Rightarrow> string) \<Rightarrow> string \<Rightarrow> settings_page \<Rightarrow> settings_page" where
  "debounce_elapsed md t providerId page =
     (if debounce_armed page
      then debounced_body md t providerId (page\<lparr>debounce_armed := False\<rparr>)
      else page)"

text \<open>The callback of \<^verbatim>\<open>watch([apiKey, baseUrl], ...)\<close>.\<close>

definition watch_callback :: "string \<Rightarrow> settings_page \<Rightarrow> settings_page" where
  "watch_callback providerId page =
     page\<lparr>providerCredentials :=
            rec_set (providerCredentials page) providerId
              (rec_set
                 (rec_set (case rec_get (providerCredentials page) providerId of
                             None \<Rightarrow> []
                           | Some c \<Rightarrow> c)
                    ''apiKey'' (field_get providerId ''apiKey'' page))
                 ''baseUrl'' (field_get providerId ''baseUrl'' page)),
          debounce_armed := True\<rparr>"

definition onMounted ::
  "provider_metadata js_record \<Rightarrow> (string \<Rightarrow> string) \<Rightarrow> string \<Rightarrow> settings_page \<Rightarrow> settings_page" where
  "onMounted md t providerId page =
     (case initializeProvider md providerId page of
        Inl e \<Rightarrow> page
      | Inr p1 \<Rightarrow>
          (let p2 = field_set providerId ''apiKey'' (field_get providerId ''apiKey'' p1) p1;
               p3 = field_set providerId ''baseUrl'' (field_get providerId ''baseUrl'' p2) p2
           in case trim_value (field_get providerId ''apiKey'' p3) of
                Inl e \<Rightarrow> p3
              | Inr a \<Rightarrow> if a \<noteq> [] then validateConfiguration md t providerId p3 else p3))"

text \<open>
  \<^verbatim>\<open>handleResetSettings\<close>, which the pages of \<^verbatim>\<open>xai\<close> and \<^verbatim>\<open>ollama\<close> have word for word.
  The object it stores is \<^verbatim>\<open>{ ...(providerMetadata.value?.defaultOptions as any) }\<close>: the
  spread of the field \<^verbatim>\<open>defaultOptions\<close> itself, which is \<^verbatim>\<open>undefined\<close> or a function.
  The spread copies the own enumerable properties of its operand: \<^verbatim>\<open>undefined\<close> has
  none, and neither has an arrow function. The function is not called. (The field is
  also \<^verbatim>\<open>undefined\<close> in the object that \<^verbatim>\<open>getProviderMetadata\<close> returns for an inherited
  member.)
\<close>

definition spread_optional_function :: "('a \<Rightarrow> 'b) option \<Rightarrow> config" where
  "spread_optional_function f = (case f of None \<Rightarrow> [] | Some g \<Rightarrow> [])"

definition handleResetSettings ::
  "provider_metadata js_record \<Rightarrow> string \<Rightarrow> settings_page \<Rightarrow> settings_page" where
  "handleResetSettings md providerId page =
     (case getProviderMetadata md providerId of
        Inl e \<Rightarrow> page
      | Inr metadata \<Rightarrow>
          page\<lparr>providerCredentials :=
                 rec_set (providerCredentials page) providerId
                   (spread_optional_function
                      (case metadata of None \<Rightarrow> None | Some m \<Rightarrow> defaultOptions m)),
               isValid := False,
               validationMessage := [],
               isValidating := 0\<rparr>)"

text \<open>
  What can happen to the page, one handler at a time. The scheduler is left open: any
  event may come at any moment, which covers every order the framework can produce.
\<close>

datatype event =
    Mounted
  | ApiKeyInput string
  | BaseUrlInput string
  | WatchCallback
  | DebounceElapsed
  | ValidationSettled nat
  | TimerElapsed nat
  | ResetClicked

fun step ::
  "provider_metadata js_record \<Rightarrow> (string \<Rightarrow> string) \<Rightarrow> string \<Rightarrow> settings_page \<Rightarrow> event
     \<Rightarrow> settings_page" where
  "step md t providerId page Mounted = onMounted md t providerId page"
| "step md t providerId page (ApiKeyInput v) = field_set providerId ''apiKey'' (JStr v) page"
| "step md t providerId page (BaseUrlInput v) = field_set providerId ''baseUrl'' (JStr v) page"
| "step md t providerId page WatchCallback = watch_callback providerId page"
| "step md t providerId page DebounceElapsed = debounce_elapsed md t providerId page"
| "step md t providerId page (ValidationSettled i) = validation_settled t i page"
| "step md t providerId page (TimerElapsed i) = timer_elapsed i page"
| "step md t providerId page ResetClicked = handleResetSettings md providerId page"

definition run ::
  "provider_metadata js_record \<Rightarrow> (string \<Rightarrow> string) \<Rightarrow> string \<Rightarrow> settings_page \<Rightarrow> event list
     \<Rightarrow> settings_page" where
  "run md t providerId page evs = foldl (step md t providerId) page evs"

text \<open>The page as \<^verbatim>\<open>setup\<close> leaves it, on a store with the given credentials.\<close>

definition fresh_page :: "config js_record \<Rightarrow> settings_page" where
  "fresh_page creds =
     \<lparr>providerCredentials = creds,
      configuredProviders = Map.empty,
      availableModels = Map.empty,
      isLoadingModels = Map.empty,
      modelLoadError = Map.empty,
      isValidating = 0,
      isValid = False,
      validationMessage = [],
      inflight = [],
      debounce_armed = False\<rparr>"

text \<open>
  The two places that assign \<^verbatim>\<open>isValidating.value = 0\<close>: the reset handler, and the
  debounced function when the trimmed API key is empty. A run is \<open>quiet\<close> when none of
  its steps is one of them.
\<close>

definition clears_counter :: "string \<Rightarrow> settings_page \<Rightarrow> event \<Rightarrow> bool" where
  "clears_counter providerId page e =
     (case e of
        ResetClicked \<Rightarrow> True
      | DebounceElapsed \<Rightarrow>
          debounce_armed page \<and> trim_value (field_get providerId ''apiKey'' page) = Inr []
      | _ \<Rightarrow> False)"

fun quiet ::
  "provider_metadata js_record \<Rightarrow> (string \<Rightarrow> string) \<Rightarrow> string \<Rightarrow> settings_page \<Rightarrow> event list
     \<Rightarrow> bool" where
  "quiet md t providerId page [] = True"
| "quiet md t providerId page (e # es) =
     (\<not> clears_counter providerId page e \<and> quiet md t providerId (step md t providerId page e) es)"

section \<open>Concrete environments\<close>

text \<open>
  Modelled from the spec: \<^verbatim>\<open>isAbsoluteUrl\<close> of \<^verbatim>\<open>../utils/string\<close>, a file that is not
  among the sources. The specification asks of an absolute URL "scheme + host present":
  a scheme (a letter, then letters, digits, \<^verbatim>\<open>+\<close>, \<^verbatim>\<open>-\<close> or \<^verbatim>\<open>.\<close>), then \<^verbatim>\<open>://\<close>, then a
  host that is not empty. It serves only to build the concrete environments below; the
  validators take the predicate as a parameter.
\<close>

definition is_letter :: "char \<Rightarrow> bool" where
  "is_letter c = (c \<in> set ''abcdefghijklmnopqrstuvwxyzABCDEFGHIJKLMNOPQRSTUVWXYZ'')"

definition is_scheme_char :: "char \<Rightarrow> bool" where
  "is_scheme_char c = (is_letter c \<or> c \<in> set ''0123456789+-.'')"

definition isAbsoluteUrl_spec :: "jsval \<Rightarrow> bool" where
  "isAbsoluteUrl_spec v =
     (case v of
        JStr s \<Rightarrow>
          (let scheme = takeWhile is_scheme_char s; rest = dropWhile is_scheme_char s
           in (case scheme of [] \<Rightarrow> False | c # cs \<Rightarrow> is_letter c)
              \<and> take 3 rest = ''://''
              \<and> takeWhile (\<lambda>c. c \<noteq> CHR ''/'') (drop 3 rest) \<noteq> [])
      | _ \<Rightarrow> False)"

text \<open>
  \<^verbatim>\<open>JSON.stringify\<close> on the values above: \<^verbatim>\<open>undefined\<close> has no text (\<open>None\<close>) and is
  left out of an object; a string is quoted, with the quote, the backslash and the
  control characters escaped.
\<close>

definition hex_digit :: "nat \<Rightarrow> char" where
  "hex_digit n = (''0123456789abcdef'' ! (n mod 16))"

definition json_escape :: "char \<Rightarrow> string" where
  "json_escape c =
     (if c = CHR 0x22 then [CHR 0x5C, CHR 0x22]
      else if c = CHR 0x5C then [CHR 0x5C, CHR 0x5C]
      else if c = CHR 0x08 then [CHR 0x5C, CHR ''b'']
      else if c = CHR 0x0C then [CHR 0x5C, CHR ''f'']
      else if c = CHR 0x0A then [CHR 0x5C, CHR ''n'']
      else if c = CHR 0x0D then [CHR 0x5C, CHR ''r'']
      else if c = CHR 0x09 then [CHR 0x5C, CHR ''t'']
      else if (of_char c :: nat) < 32
      then [CHR 0x5C, CHR ''u'', CHR ''0'', CHR ''0'',
            hex_digit (of_char c div 16), hex_digit (of_char c)]
      else [c])"

definition json_quote :: "string \<Rightarrow> string" where
  "json_quote s = [CHR 0x22] @ concat (map json_escape s) @ [CHR 0x22]"

fun join_with :: "string \<Rightarrow> string list \<Rightarrow> string" where
  "join_with sep [] = []"
| "join_with sep [x] = x"
| "join_with sep (x # y # ys) = x @ sep @ join_with sep (y # ys)"

fun json_value :: "jsval \<Rightarrow> string option"
  and json_members :: "(string \<times> jsval) list \<Rightarrow> string list" where
  "json_value JUndefined = None"
| "json_value JNull = Some ''null''"
| "json_value (JBool b) = Some (if b then ''true'' else ''false'')"
| "json_value (JStr s) = Some (json_quote s)"
| "json_value (JObj kvs) = Some (''{'' @ join_with '','' (json_members kvs) @ ''}'')"
| "json_members [] = []"
| "json_members ((k, v) # kvs) =
     (case json_value v of
        None \<Rightarrow> json_members kvs
      | Some j \<Rightarrow> (json_quote k @ '':'' @ j) # json_members kvs)"

definition JSON_stringify :: "config option \<Rightarrow> string option" where
  "JSON_stringify x = (case x of None \<Rightarrow> None | Some c \<Rightarrow> json_value (JObj c))"

text \<open>
  Two environments to run the store in. \<open>offline\<close>: no server answers, and the browser
  has neither WebGPU nor a memory figure. \<open>online\<close>: every request is answered with
  status 200 and every vendor lists one model.
\<close>

definition unreachable :: thrown where
  "unreachable = ThrownError (JsError ''TypeError'' ''Failed to fetch'')"

definition offline :: externals where
  "offline =
     \<lparr>isAbsoluteUrl = isAbsoluteUrl_spec,
      fetch = (\<lambda>url headers. Inl unreachable),
      listModelsCall = (\<lambda>providerId c. Inl unreachable),
      isWebGPUSupported = Inr False,
      deviceMemory = None\<rparr>"

definition sample_model :: model_info where
  "sample_model =
     \<lparr>model_id = ''m1'',
      model_name = ''Model One'',
      model_provider = ''vendor'',
      model_description = Some [],
      model_capabilities = Some [''chat''],
      model_contextLength = Some 0,
      model_deprecated = Some False\<rparr>"

definition online :: externals where
  "online =
     \<lparr>isAbsoluteUrl = isAbsoluteUrl_spec,
      fetch = (\<lambda>url headers. Inr \<lparr>ok = True, statusText = ''OK''\<rparr>),
      listModelsCall = (\<lambda>providerId c. Inr [sample_model]),
      isWebGPUSupported = Inr True,
      deviceMemory = Some 8\<rparr>"

text \<open>An environment in which the WebGPU probe rejects.\<close>

definition probe_error :: thrown where
  "probe_error = ThrownError (JsError ''Error'' ''requestAdapter failed'')"

definition probe_fails :: externals where
  "probe_fails = online\<lparr>isWebGPUSupported := Inl probe_error\<rparr>"

text \<open>A store that holds the given credentials and nothing else yet.\<close>

definition empty_store :: "config js_record \<Rightarrow> store" where
  "empty_store creds =
     \<lparr>providerCredentials = creds,
      configuredProviders = Map.empty,
      availableModels = Map.empty,
      isLoadingModels = Map.empty,
      modelLoadError = Map.empty\<rparr>"

text \<open>The inputs of the concrete runs below.\<close>

definition stale_store :: store where
  "stale_store =
     (empty_store [(''ollama'', [(''baseUrl'', JStr ''http://localhost:11434/v1/'')])])
       \<lparr>availableModels := [''ollama'' \<mapsto> [sample_model]]\<rparr>"

definition creds_before :: "config js_record" where
  "creds_before =
     [(''ollama'', [(''baseUrl'', JStr ''http://localhost:11434/v1/'')]),
      (''xai'', [(''apiKey'', JStr ''sk-1''), (''baseUrl'', JStr ''https://api.x.ai/v1/'')])]"

definition creds_after :: "config js_record" where
  "creds_after =
     [(''ollama'', [(''baseUrl'', JStr ''http://192.168.1.5:11434/v1/'')]),
      (''xai'', [(''apiKey'', JStr ''sk-1''), (''baseUrl'', JStr ''https://api.x.ai/v1/'')])]"

definition both_configured :: store where
  "both_configured =
     (empty_store creds_after)
       \<lparr>configuredProviders := [''ollama'' \<mapsto> True, ''xai'' \<mapsto> True],
        availableModels := [''xai'' \<mapsto> [sample_model]]\<rparr>"

definition xai_key :: "config js_record" where
  "xai_key = [(''xai'', [(''apiKey'', JStr ''sk-1''), (''baseUrl'', JStr ''https://api.x.ai/v1/'')])]"

definition t_en :: "string \<Rightarrow> string" where
  "t_en e = ''Validation error: '' @ e"

section \<open>Auxiliary notions\<close>

text \<open>The three entries that the model catalogue keeps for one provider.\<close>

definition model_entries ::
  "store \<Rightarrow> string \<Rightarrow> bool option \<times> string option option \<times> model_info list option" where
  "model_entries s p = (isLoadingModels s p, modelLoadError s p, availableModels s p)"

text \<open>The counter of the page equals the number of its calls in flight.\<close>

definition balanced :: "settings_page \<Rightarrow> bool" where
  "balanced page = (isValidating page = int (length (inflight page)))"

section \<open>Properties\<close>

subsection \<open>Records and the table\<close>

lemma map_of_rec_set: "map_of (rec_set r k v) = (map_of r)(k \<mapsto> v)"
  by (induction r) (auto simp: fun_eq_iff)

lemma rec_get_rec_set: "rec_get (rec_set r k v) k' = (if k' = k then Some v else rec_get r k')"
  by (simp add: rec_get_def map_of_rec_set)

lemma rec_read_own: "rec_get r k = Some v \<Longrightarrow> rec_read r k = Own v"
  by (simp add: rec_get_def rec_read_def)

lemma rec_read_none:
  "rec_get r k = None \<Longrightarrow>
     rec_read r k = (if k \<in> set object_prototype_names then Inherited else Missing)"
  by (simp add: rec_get_def rec_read_def)

lemma rec_read_rec_set: "rec_read (rec_set r k v) k = Own v"
  by (simp add: rec_read_own rec_get_rec_set)

lemma rec_get_key: "k \<in> set (rec_keys r) \<Longrightarrow> \<exists>v. rec_get r k = Some v"
  by (cases "map_of r k") (auto simp: rec_get_def rec_keys_def map_of_eq_None_iff)

lemma table_keys:
  "rec_keys (providerMetadata ext) =
     [''openrouter-ai'', ''browser-local-audio-speech'', ''ollama'', ''xai'']"
  by (simp add: rec_keys_def providerMetadata_def)

lemma table_openrouter: "rec_get (providerMetadata ext) ''openrouter-ai'' = Some (openrouter_ai ext)"
  by (simp add: rec_get_def providerMetadata_def)

lemma table_ollama: "rec_get (providerMetadata ext) ''ollama'' = Some (ollama ext)"
  by (simp add: rec_get_def providerMetadata_def)

lemma table_xai: "rec_get (providerMetadata ext) ''xai'' = Some (xai ext)"
  by (simp add: rec_get_def providerMetadata_def)

subsection \<open>Validation of a provider\<close>

lemma validateProvider_cong:
  "providerCredentials s' = providerCredentials s \<Longrightarrow>
     validateProvider md p s' = validateProvider md p s"
  by (simp add: validateProvider_def)

lemma record_status_credentials [simp]:
  "providerCredentials (record_status md s p) = providerCredentials s"
  by (simp add: record_status_def)

lemma foldl_record_status_configured:
  "configuredProviders (foldl (record_status md) s ks) p =
     (if p \<in> set ks then Some (validateProvider md p s = Inr True) else configuredProviders s p)"
proof (induction ks arbitrary: s)
  case Nil
  show ?case by simp
next
  case (Cons k ks)
  have v: "validateProvider md p (record_status md s k) = validateProvider md p s"
    by (rule validateProvider_cong) simp
  have here: "configuredProviders (record_status md s k) k = Some (validateProvider md k s = Inr True)"
    by (auto simp: record_status_def split: sum.splits)
  have other: "p \<noteq> k \<Longrightarrow> configuredProviders (record_status md s k) p = configuredProviders s p"
    by (simp add: record_status_def)
  show ?case
    using Cons.IH [of "record_status md s k"] v here other by auto
qed

lemma validateProvider_rejects_iff:
  "rec_get (providerCredentials s) p = Some c \<Longrightarrow> rec_get md p = Some m \<Longrightarrow>
   validateProvider md p s = Inl e \<longleftrightarrow>
     (validateProviderConfig m c = Inl e \<or>
      (\<exists>r. validateProviderConfig m c = Inr r \<and> \<not> valid r \<and>
           e = ThrownError (JsError ''Error'' (reason r))))"
  by (auto simp: validateProvider_def rec_read_own truthy_read_def seen_config_def
        split: sum.splits)

text \<open>
  C1, as the code has it. The claim says that \<^verbatim>\<open>validateProvider\<close> never rejects. It does:
  for an id with a stored configuration and a table entry, it rejects exactly when the
  hook \<^verbatim>\<open>validateProviderConfig\<close> either throws (the exception passes through) or
  returns an outcome that is not valid (the rejection is \<^verbatim>\<open>new Error(reason)\<close>). The
  conversion into a value is made by the caller, \<^verbatim>\<open>updateConfigurationStatus\<close>: for every
  id of the table it records \<^verbatim>\<open>true\<close> when \<^verbatim>\<open>validateProvider\<close> resolves to \<^verbatim>\<open>true\<close> and
  \<^verbatim>\<open>false\<close> in every other case, rejections included.
\<close>

theorem C1_rejections_absorbed_by_caller:
  "(rec_get (providerCredentials s) p = Some c \<and> rec_get md p = Some m \<longrightarrow>
      (validateProvider md p s = Inl e \<longleftrightarrow>
         (validateProviderConfig m c = Inl e \<or>
          (\<exists>r. validateProviderConfig m c = Inr r \<and> \<not> valid r \<and>
               e = ThrownError (JsError ''Error'' (reason r))))))
   \<and> (p \<in> set (rec_keys md) \<longrightarrow>
        configuredProviders (updateConfigurationStatus md s) p
          = Some (validateProvider md p s = Inr True))"
  by (simp add: validateProvider_rejects_iff updateConfigurationStatus_def
        foldl_record_status_configured)

text \<open>
  C1 at a concrete input: \<^verbatim>\<open>openrouter-ai\<close> as \<^verbatim>\<open>initializeProvider\<close> leaves it (a base
  URL, no API key). \<^verbatim>\<open>validateProvider\<close> rejects and the tracker records \<^verbatim>\<open>false\<close>.
\<close>

theorem C1_rejections_absorbed_witness:
  "validateProvider (providerMetadata offline) ''openrouter-ai''
     (empty_store [(''openrouter-ai'', [(''baseUrl'', JStr ''https://openrouter.ai/api/v1/'')])])
   = Inl (ThrownError (JsError ''Error'' ''Error: API key is required''))
   \<and> configuredProviders
        (updateConfigurationStatus (providerMetadata offline)
           (empty_store [(''openrouter-ai'', [(''baseUrl'', JStr ''https://openrouter.ai/api/v1/'')])]))
        ''openrouter-ai'' = Some False"
proof -
  let ?s = "empty_store [(''openrouter-ai'', [(''baseUrl'', JStr ''https://openrouter.ai/api/v1/'')])]"
  have rejected: "validateProvider (providerMetadata offline) ''openrouter-ai'' ?s
      = Inl (ThrownError (JsError ''Error'' ''Error: API key is required''))"
    by code_simp
  have listed: "''openrouter-ai'' \<in> set (rec_keys (providerMetadata offline))"
    by (simp add: table_keys)
  from C1_rejections_absorbed_by_caller
         [of ?s "''openrouter-ai''" "[(''baseUrl'', JStr ''https://openrouter.ai/api/v1/'')]"
             "providerMetadata offline" "openrouter_ai offline"
             "ThrownError (JsError ''Error'' ''Error: API key is required'')"]
       rejected listed
  show ?thesis by simp
qed

text \<open>
  C1 as stated fails: with a base URL and no API key the validator of \<^verbatim>\<open>openrouter-ai\<close>
  returns an invalid outcome, and \<^verbatim>\<open>validateProvider\<close> rejects with its reason instead of
  resolving.
\<close>

theorem C1_validateProvider_rejects:
  "validateProvider (providerMetadata offline) ''openrouter-ai''
     (empty_store [(''openrouter-ai'', [(''baseUrl'', JStr ''https://openrouter.ai/api/v1/'')])])
   = Inl (ThrownError (JsError ''Error'' ''Error: API key is required''))"
  by code_simp

text \<open>
  C3, as the code has it. The claim says that a missing configuration or a missing table
  entry makes \<^verbatim>\<open>validateProvider\<close> fail with a thrown error. For an id that is not the
  name of a member of \<^verbatim>\<open>Object.prototype\<close>, the guard of the missing one ends in
  \<^verbatim>\<open>return false\<close>: the promise resolves to \<^verbatim>\<open>false\<close> and nothing is thrown. For an id
  that is such a name and has no table entry, both guards read a truthy value and the
  call rejects with a \<^verbatim>\<open>TypeError\<close>.
\<close>

theorem C3_missing_resolves_false:
  "((rec_get (providerCredentials s) p = None \<or> rec_get md p = None)
      \<and> p \<notin> set object_prototype_names \<longrightarrow>
        validateProvider md p s = Inr False)
   \<and> (p \<in> set object_prototype_names \<and> rec_get md p = None \<longrightarrow>
        (\<exists>e. validateProvider md p s = Inl e \<and> is_TypeError e))"
proof -
  have missing: "validateProvider md p s = Inr False"
    if "rec_get (providerCredentials s) p = None \<or> rec_get md p = None"
      and "p \<notin> set object_prototype_names"
    using that
    by (cases "rec_get (providerCredentials s) p"; cases "rec_get md p")
       (auto simp: validateProvider_def rec_read_none rec_read_own truthy_read_def)
  have inherited: "validateProvider md p s = Inl (undefined_read ''validateProviderConfig'')"
    if "p \<in> set object_prototype_names" and "rec_get md p = None"
    using that
    by (cases "rec_get (providerCredentials s) p")
       (auto simp: validateProvider_def rec_read_none rec_read_own truthy_read_def)
  have "is_TypeError (undefined_read ''validateProviderConfig'')"
    by (simp add: is_TypeError_def undefined_read_def)
  with missing inherited show ?thesis by auto
qed

text \<open>
  C3 at concrete inputs: \<^verbatim>\<open>ollama\<close> is in the table and the store has no entry for it;
  \<^verbatim>\<open>constructor\<close> is the name of a member of \<^verbatim>\<open>Object.prototype\<close> and has no entry anywhere.
\<close>

theorem C3_missing_resolves_false_witness:
  "rec_get (providerCredentials (empty_store [])) ''ollama'' = None
   \<and> validateProvider (providerMetadata offline) ''ollama'' (empty_store []) = Inr False
   \<and> rec_get (providerMetadata offline) ''constructor'' = None
   \<and> (\<exists>e. validateProvider (providerMetadata offline) ''constructor'' (empty_store []) = Inl e
          \<and> is_TypeError e)"
proof -
  have a: "rec_get (providerCredentials (empty_store [])) ''ollama'' = None"
    by (simp add: empty_store_def rec_get_def)
  have b: "''ollama'' \<notin> set object_prototype_names"
    by (simp add: object_prototype_names_def)
  have c: "rec_get (providerMetadata offline) ''constructor'' = None"
    by (simp add: rec_get_def providerMetadata_def)
  have d: "''constructor'' \<in> set object_prototype_names"
    by (simp add: object_prototype_names_def)
  from C3_missing_resolves_false [of "empty_store []" "''ollama''" "providerMetadata offline"]
       C3_missing_resolves_false [of "empty_store []" "''constructor''" "providerMetadata offline"]
       a b c d
  show ?thesis by blast
qed

text \<open>
  C3 as stated fails: for an id with neither a table entry nor a configuration, and for
  one with a stored configuration and no table entry, the call resolves to \<^verbatim>\<open>false\<close>.
\<close>

theorem C3_unknown_provider_resolves:
  "validateProvider (providerMetadata offline) ''no-such-provider'' (empty_store []) = Inr False
   \<and> validateProvider (providerMetadata offline) ''no-such-provider''
       (empty_store [(''no-such-provider'', [(''apiKey'', JStr ''k'')])]) = Inr False"
  by code_simp

subsection \<open>Initialisation\<close>

text \<open>
  C9: for every id of the table, \<^verbatim>\<open>initializeProvider\<close> returns normally, and a second
  call on the store it returns gives that same store back: the second call changes
  nothing.
\<close>

theorem C9_initializeProvider_idempotent:
  "rec_get md p = Some m \<Longrightarrow>
     \<exists>s'. initializeProvider md p s = Inr s' \<and> initializeProvider md p s' = Inr s'"
  by (cases "rec_read (providerCredentials s) p")
     (simp_all add: initializeProvider_def Let_def rec_read_own rec_read_rec_set)

text \<open>C9 at a concrete input: \<^verbatim>\<open>ollama\<close> on a store without credentials.\<close>

theorem C9_initializeProvider_idempotent_witness:
  "rec_get (providerMetadata offline) ''ollama'' = Some (ollama offline)
   \<and> (\<exists>s'. initializeProvider (providerMetadata offline) ''ollama'' (empty_store []) = Inr s'
          \<and> initializeProvider (providerMetadata offline) ''ollama'' s' = Inr s')"
  using C9_initializeProvider_idempotent
          [of "providerMetadata offline" "''ollama''" "ollama offline" "empty_store []"]
  by (simp add: table_ollama)




subsection \<open>The validator of \<^verbatim>\<open>openrouter-ai\<close>\<close>

text \<open>
  C5: the validator of \<^verbatim>\<open>openrouter-ai\<close>, for every \<^verbatim>\<open>isAbsoluteUrl\<close>. With the API key
  and the base URL both falsy (empty or absent) the outcome is invalid and carries both
  missing-field errors, and its reason names both. With a base URL that is not empty
  and not absolute the outcome is the one of \<^verbatim>\<open>notBaseUrlError\<close>, whatever the API key.
\<close>

theorem C5_openrouter_validation:
  "(\<not> truthy (getp c ''apiKey'') \<and> \<not> truthy (getp c ''baseUrl'') \<longrightarrow>
      openrouter_validateProviderConfig ext c =
        Inr \<lparr>errors = [ThrownError (JsError ''Error'' ''API key is required''),
                       ThrownError (JsError ''Error'' ''Base URL is required'')],
             reason = ''Error: API key is required, Error: Base URL is required'',
             valid = False\<rparr>)
   \<and> (truthy (getp c ''baseUrl'') \<and> \<not> isAbsoluteUrl ext (getp c ''baseUrl'') \<longrightarrow>
      openrouter_validateProviderConfig ext c =
        Inr \<lparr>errors = [ThrownError (JsError ''Error'' ''Base URL is not absolute'')],
             reason = ''Base URL is not absolute. Check your input.'',
             valid = False\<rparr>)"
  by (simp add: openrouter_validateProviderConfig_def notBaseUrlError_def reason_of_def
        error_to_string_def)

text \<open>
  C5 at concrete inputs: both fields empty, and the base URL \<^verbatim>\<open>api.example.com\<close> with
  no API key.
\<close>

theorem C5_openrouter_validation_witness:
  "openrouter_validateProviderConfig offline [(''apiKey'', JStr []), (''baseUrl'', JStr [])] =
        Inr \<lparr>errors = [ThrownError (JsError ''Error'' ''API key is required''),
                       ThrownError (JsError ''Error'' ''Base URL is required'')],
             reason = ''Error: API key is required, Error: Base URL is required'',
             valid = False\<rparr>
   \<and> openrouter_validateProviderConfig offline [(''baseUrl'', JStr ''api.example.com'')] =
        Inr \<lparr>errors = [ThrownError (JsError ''Error'' ''Base URL is not absolute'')],
             reason = ''Base URL is not absolute. Check your input.'',
             valid = False\<rparr>"
proof -
  have empty: "\<not> truthy (getp [(''apiKey'', JStr []), (''baseUrl'', JStr [])] ''apiKey'')
      \<and> \<not> truthy (getp [(''apiKey'', JStr []), (''baseUrl'', JStr [])] ''baseUrl'')"
    by (simp add: getp_def)
  have relative: "truthy (getp [(''baseUrl'', JStr ''api.example.com'')] ''baseUrl'')
      \<and> \<not> isAbsoluteUrl offline (getp [(''baseUrl'', JStr ''api.example.com'')] ''baseUrl'')"
    by code_simp
  from C5_openrouter_validation [of "[(''apiKey'', JStr []), (''baseUrl'', JStr [])]" offline]
       C5_openrouter_validation [of "[(''baseUrl'', JStr ''api.example.com'')]" offline]
       empty relative
  show ?thesis by blast
qed

subsection \<open>The model catalogue\<close>

text \<open>
  C6: a call of \<^verbatim>\<open>fetchModelsForProvider\<close> whose \<^verbatim>\<open>listModels\<close> throws returns the empty
  list, records the message (\<^verbatim>\<open>error.message\<close> of an \<^verbatim>\<open>Error\<close>, the text
  \<^verbatim>\<open>Unknown error\<close> for any other thrown value), leaves the whole cache of models as it
  was and ends with the loading flag \<^verbatim>\<open>false\<close>. A call whose \<^verbatim>\<open>listModels\<close> succeeds, from
  any state \<open>s1\<close> (so also the one a failed call left), ends with the error \<^verbatim>\<open>null\<close>, the
  loading flag \<^verbatim>\<open>false\<close> and the new list in the cache.
\<close>

theorem C6_failed_fetch_keeps_cache:
  assumes "rec_get (providerCredentials s) p = Some c"
    and "rec_get md p = Some m" and "listModels m = Some f" and "f c = Inl err"
    and "rec_get (providerCredentials s1) p = Some c1"
    and "rec_get md' p = Some m'" and "listModels m' = Some f'" and "f' c1 = Inr models"
  shows "fst (fetchModelsForProvider md p s) = []
    \<and> modelLoadError (snd (fetchModelsForProvider md p s)) p
        = Some (Some (case err of ThrownError e \<Rightarrow> err_message e
                               | ThrownValue v \<Rightarrow> ''Unknown error''))
    \<and> availableModels (snd (fetchModelsForProvider md p s)) = availableModels s
    \<and> isLoadingModels (snd (fetchModelsForProvider md p s)) p = Some False
    \<and> modelLoadError (snd (fetchModelsForProvider md' p s1)) p = Some None
    \<and> isLoadingModels (snd (fetchModelsForProvider md' p s1)) p = Some False
    \<and> availableModels (snd (fetchModelsForProvider md' p s1)) p
        = Some (map (transform_model p) models)"
proof -
  have first: "fetchModelsForProvider md p s =
      ([], s\<lparr>isLoadingModels := (isLoadingModels s)(p \<mapsto> False),
              modelLoadError := (modelLoadError s)(p \<mapsto> Some (load_error_message err))\<rparr>)"
    using assms(1-4)
    by (simp add: fetchModelsForProvider_def fetchModels_start_def fetchModels_outcome_def
          fetchModels_settle_def rec_read_own truthy_read_def seen_config_def)
  have second: "fetchModelsForProvider md' p s1 =
      (map (transform_model p) models,
       s1\<lparr>isLoadingModels := (isLoadingModels s1)(p \<mapsto> False),
           modelLoadError := (modelLoadError s1)(p \<mapsto> None),
           availableModels := (availableModels s1)(p \<mapsto> map (transform_model p) models)\<rparr>)"
    using assms(5-8)
    by (simp add: fetchModelsForProvider_def fetchModels_start_def fetchModels_outcome_def
          fetchModels_settle_def Let_def rec_read_own truthy_read_def seen_config_def)
  show ?thesis
    by (simp add: first second load_error_message_def)
qed

text \<open>
  C6 at a concrete input: \<^verbatim>\<open>ollama\<close> with one cached model; the fetch fails while no
  server answers, and the next one, with the server up, succeeds.
\<close>

theorem C6_failed_fetch_keeps_cache_witness:
  "fst (fetchModelsForProvider (providerMetadata offline) ''ollama'' stale_store) = []
   \<and> modelLoadError (snd (fetchModelsForProvider (providerMetadata offline) ''ollama'' stale_store))
        ''ollama'' = Some (Some ''Failed to fetch'')
   \<and> availableModels (snd (fetchModelsForProvider (providerMetadata offline) ''ollama'' stale_store))
        ''ollama'' = Some [sample_model]
   \<and> isLoadingModels (snd (fetchModelsForProvider (providerMetadata offline) ''ollama'' stale_store))
        ''ollama'' = Some False
   \<and> modelLoadError
        (snd (fetchModelsForProvider (providerMetadata online) ''ollama''
               (snd (fetchModelsForProvider (providerMetadata offline) ''ollama'' stale_store))))
        ''ollama'' = Some None"
proof -
  let ?c = "[(''baseUrl'', JStr ''http://localhost:11434/v1/'')]"
  let ?s1 = "snd (fetchModelsForProvider (providerMetadata offline) ''ollama'' stale_store)"
  have 1: "rec_get (providerCredentials stale_store) ''ollama'' = Some ?c"
    by (simp add: stale_store_def empty_store_def rec_get_def)
  have 2: "listModels (ollama offline) = Some (listModelsCall offline ''ollama'')"
    by (simp add: ollama_def)
  have 3: "listModelsCall offline ''ollama'' ?c = Inl unreachable"
    by (simp add: offline_def)
  have 4: "listModels (ollama online) = Some (listModelsCall online ''ollama'')"
    by (simp add: ollama_def)
  have 5: "listModelsCall online ''ollama'' ?c = Inr [sample_model]"
    by (simp add: online_def)
  have 6: "availableModels stale_store ''ollama'' = Some [sample_model]"
    by (simp add: stale_store_def)
  have 7: "rec_get (providerCredentials ?s1) ''ollama'' = Some ?c"
    using 1 2 3
    by (simp add: fetchModelsForProvider_def fetchModels_start_def fetchModels_outcome_def
          fetchModels_settle_def table_ollama rec_read_own truthy_read_def seen_config_def)
  from C6_failed_fetch_keeps_cache [OF 1 table_ollama 2 3 7 table_ollama 4 5] 6
  show ?thesis by (simp add: unreachable_def)
qed

lemma fetchModels_start_frame:
  "fetchModels_start md p s = Some s1 \<Longrightarrow> q \<noteq> p \<Longrightarrow> model_entries s1 q = model_entries s q"
  by (auto simp: fetchModels_start_def model_entries_def split: if_splits)

lemma refetch_changed_frame:
  "B \<notin> set ps \<Longrightarrow> refetch_changed md ps (s, pending) = (s', pending') \<Longrightarrow>
     model_entries s' B = model_entries s B \<and> fst ` set pending' \<subseteq> fst ` set pending \<union> set ps"
proof (induction ps arbitrary: s pending)
  case Nil
  then show ?case by simp
next
  case (Cons p ps)
  from Cons.prems(1) have nb: "B \<notin> set ps" and ne: "B \<noteq> p" by auto
  have skip: ?case if "refetch_changed md ps (s, pending) = (s', pending')"
    using Cons.IH [OF nb that] by auto
  show ?case
  proof (cases "configured_truthy s p")
    case False
    with Cons.prems(2) have "refetch_changed md ps (s, pending) = (s', pending')" by simp
    then show ?thesis by (rule skip)
  next
    case True
    show ?thesis
    proof (cases "rec_read md p")
      case Inherited
      with True Cons.prems(2) show ?thesis by auto
    next
      case Missing
      with True Cons.prems(2) have "refetch_changed md ps (s, pending) = (s', pending')" by simp
      then show ?thesis by (rule skip)
    next
      case (Own metadata)
      show ?thesis
      proof (cases "listModels metadata \<noteq> None")
        case False
        with True Own Cons.prems(2) have "refetch_changed md ps (s, pending) = (s', pending')"
          by simp
        then show ?thesis by (rule skip)
      next
        case has: True
        show ?thesis
        proof (cases "fetchModels_start md p s")
          case None
          with True Own has Cons.prems(2)
          have "refetch_changed md ps (s, pending) = (s', pending')" by simp
          then show ?thesis by (rule skip)
        next
          case (Some s1)
          with True Own has Cons.prems(2)
          have r: "refetch_changed md ps (s1, pending @ [(p, fetchModels_outcome md p s)])
                     = (s', pending')"
            by simp
          from Some ne have "model_entries s1 B = model_entries s B"
            by (rule fetchModels_start_frame)
          with Cons.IH [OF nb r] show ?thesis by auto
        qed
      qed
    qed
  qed
qed

lemma unchanged_not_in_changedProviders:
  assumes "rec_get newCreds B = old_entry oldCreds B"
  shows "B \<notin> set (changedProviders stringify newCreds oldCreds)"
proof (cases "B \<in> set (rec_keys newCreds)")
  case False
  then show ?thesis by (simp add: changedProviders_def)
next
  case True
  then obtain c where c: "rec_get newCreds B = Some c"
    using rec_get_key by blast
  with assms have "old_entry oldCreds B = Some c" by simp
  then obtain oc where "oldCreds = Some oc" and "rec_get oc B = Some c"
    by (auto simp: old_entry_def split: option.splits)
  then have "old_read oldCreds B = Some c"
    by (simp add: old_read_def rec_read_own)
  with c show ?thesis by (simp add: changedProviders_def)
qed

lemma apply_completion_frame:
  "from_watcher pending c \<Longrightarrow> B \<notin> fst ` set pending \<Longrightarrow>
     model_entries (apply_completion s c) B = model_entries s B"
proof (cases c)
  case (StatusKnown p b)
  then show ?thesis by (simp add: model_entries_def)
next
  case (ModelsSettled p outcome)
  assume "from_watcher pending c" and "B \<notin> fst ` set pending"
  with ModelsSettled have "p \<noteq> B" by (force simp: from_watcher_def)
  with ModelsSettled show ?thesis
    by (cases outcome) (simp_all add: model_entries_def fetchModels_settle_def Let_def)
qed

lemma completions_frame:
  "list_all (from_watcher pending) cs \<Longrightarrow> B \<notin> fst ` set pending \<Longrightarrow>
     model_entries (foldl apply_completion s cs) B = model_entries s B"
proof (induction cs arbitrary: s)
  case Nil
  show ?case by simp
next
  case (Cons c cs)
  then show ?case by (auto simp: apply_completion_frame)
qed

text \<open>
  C7: let the credentials change in any way that leaves the entry of provider \<open>B\<close> as it
  was (so whatever other provider \<open>A\<close> was edited). Then the watcher starts no model
  fetch for \<open>B\<close>, and after the watcher and after any sequence of the completions that
  the change leaves behind (statuses being written, the started fetches settling, in any
  order), the loading flag, the load error and the cached models of \<open>B\<close> are what they
  were. This holds for every \<^verbatim>\<open>JSON.stringify\<close>.
\<close>

theorem C7_unchanged_provider_untouched:
  assumes "rec_get newCreds B = old_entry oldCreds B"
    and "credentials_watcher stringify md newCreds oldCreds s = (s', pending)"
    and "list_all (from_watcher pending) cs"
  shows "B \<notin> fst ` set pending
    \<and> isLoadingModels (foldl apply_completion s' cs) B = isLoadingModels s B
    \<and> modelLoadError (foldl apply_completion s' cs) B = modelLoadError s B
    \<and> availableModels (foldl apply_completion s' cs) B = availableModels s B"
proof -
  from assms(1) have nb: "B \<notin> set (changedProviders stringify newCreds oldCreds)"
    by (rule unchanged_not_in_changedProviders)
  from assms(2) have r: "refetch_changed md (changedProviders stringify newCreds oldCreds) (s, [])
      = (s', pending)"
    by (simp add: credentials_watcher_def)
  from refetch_changed_frame [OF nb r]
  have e: "model_entries s' B = model_entries s B"
    and sub: "fst ` set pending \<subseteq> set (changedProviders stringify newCreds oldCreds)"
    by auto
  from sub nb have np: "B \<notin> fst ` set pending" by auto
  from completions_frame [OF assms(3) np] e
  have "model_entries (foldl apply_completion s' cs) B = model_entries s B" by simp
  with np show ?thesis by (simp add: model_entries_def)
qed

text \<open>
  C7 at a concrete input: the base URL of \<^verbatim>\<open>ollama\<close> is edited, \<^verbatim>\<open>xai\<close> is left alone, both
  are configured. The watcher starts one fetch, for \<^verbatim>\<open>ollama\<close>, and the cache of \<^verbatim>\<open>xai\<close>
  is the same after everything has completed.
\<close>

theorem C7_unchanged_provider_untouched_witness:
  "rec_get creds_after ''xai'' = old_entry (Some creds_before) ''xai''
   \<and> snd (credentials_watcher JSON_stringify (providerMetadata online) creds_after
             (Some creds_before) both_configured)
       = [(''ollama'', Inr [sample_model])]
   \<and> availableModels
        (foldl apply_completion
           (fst (credentials_watcher JSON_stringify (providerMetadata online) creds_after
                   (Some creds_before) both_configured))
           [StatusKnown ''xai'' True, ModelsSettled ''ollama'' (Inr [sample_model]),
            StatusKnown ''ollama'' True])
        ''xai'' = Some [sample_model]"
proof -
  let ?w = "credentials_watcher JSON_stringify (providerMetadata online) creds_after
              (Some creds_before) both_configured"
  let ?cs = "[StatusKnown ''xai'' True, ModelsSettled ''ollama'' (Inr [sample_model]),
              StatusKnown ''ollama'' True]"
  have same: "rec_get creds_after ''xai'' = old_entry (Some creds_before) ''xai''"
    by code_simp
  have pending: "snd ?w = [(''ollama'', Inr [sample_model])]"
    by code_simp
  have w: "?w = (fst ?w, snd ?w)"
    by simp
  have cs: "list_all (from_watcher (snd ?w)) ?cs"
    by (simp add: pending from_watcher_def)
  have before: "availableModels both_configured ''xai'' = Some [sample_model]"
    by (simp add: both_configured_def)
  from C7_unchanged_provider_untouched [OF same w cs] pending before same
  show ?thesis by simp
qed

subsection \<open>The availability filter\<close>

lemma wf_table_lookup:
  assumes "wf_table md" and "m \<in> set (rec_values md)"
  shows "getProviderMetadata md (provider_id m) = Inr (Some m)"
proof -
  from assms(2) obtain k where km: "(k, m) \<in> set md"
    by (auto simp: rec_values_def)
  with assms(1) have k: "provider_id m = k"
    by (auto simp: wf_table_def list_all_iff)
  from assms(1) have "distinct (map fst md)"
    by (simp add: wf_table_def rec_keys_def)
  with km have "map_of md k = Some m"
    by simp
  with k show ?thesis
    by (simp add: getProviderMetadata_def rec_read_def)
qed

lemma availability_loop_closed_form:
  "\<forall>p \<in> set ps. getProviderMetadata md (provider_id p) = Inr (Some p) \<Longrightarrow>
   availability_loop md ps acc =
     (case find (\<lambda>p. isl (availability p)) ps of
        Some p \<Rightarrow> Inl (projl (availability p))
      | None \<Rightarrow> Inr (acc @ filter (\<lambda>p. availability p = Inr True) ps))"
proof (induction ps arbitrary: acc)
  case Nil
  show ?case by simp
next
  case (Cons p ps)
  show ?case
  proof (cases "availability p")
    case (Inl e)
    with Cons.prems show ?thesis by simp
  next
    case (Inr b)
    with Cons.prems Cons.IH show ?thesis by (simp split: option.split)
  qed
qed

lemma wf_providerMetadata: "wf_table (providerMetadata ext)"
  by (simp add: wf_table_def rec_keys_def providerMetadata_def openrouter_ai_def
        browser_local_audio_speech_def ollama_def xai_def)

text \<open>
  C4, as the code has it. The claim says that a predicate that throws only excludes its
  provider. The loop has no \<^verbatim>\<open>try\<close>: on a table whose entries carry their own key as
  \<^verbatim>\<open>id\<close>, the computation rejects with the exception of the first descriptor, in table
  order, whose \<^verbatim>\<open>isAvailableBy\<close> throws or rejects, and no list is produced. When no
  predicate throws, the result is the list of the descriptors whose predicate is absent
  or resolves to \<^verbatim>\<open>true\<close>, in table order.
\<close>

theorem C4_first_throwing_predicate_aborts:
  "wf_table md \<Longrightarrow>
   availableProvidersMetadata md =
     (case find (\<lambda>p. isl (availability p)) (allProvidersMetadata md) of
        Some p \<Rightarrow> Inl (projl (availability p))
      | None \<Rightarrow> Inr (filter (\<lambda>p. availability p = Inr True) (allProvidersMetadata md)))"
  using availability_loop_closed_form [of "allProvidersMetadata md" md "[]"]
  by (simp add: availableProvidersMetadata_def allProvidersMetadata_def wf_table_lookup
        split: option.split)

text \<open>
  C4 at concrete inputs: with the WebGPU probe rejecting, the computation rejects; with
  no server and no WebGPU, nothing throws and the three providers without a predicate
  are listed.
\<close>

theorem C4_first_throwing_predicate_aborts_witness:
  "wf_table (providerMetadata probe_fails)
   \<and> availableProvidersMetadata (providerMetadata probe_fails) = Inl probe_error
   \<and> wf_table (providerMetadata offline)
   \<and> availableProvidersMetadata (providerMetadata offline)
       = Inr [openrouter_ai offline, ollama offline, xai offline]"
proof -
  have a: "find (\<lambda>p. isl (availability p)) (allProvidersMetadata (providerMetadata probe_fails))
           = Some (browser_local_audio_speech probe_fails)"
    by (simp add: allProvidersMetadata_def rec_values_def providerMetadata_def availability_def
          openrouter_ai_def browser_local_audio_speech_def browser_local_isAvailableBy_def
          probe_fails_def)
  have b: "availability (browser_local_audio_speech probe_fails) = Inl probe_error"
    by (simp add: availability_def browser_local_audio_speech_def browser_local_isAvailableBy_def
          probe_fails_def)
  have c: "find (\<lambda>p. isl (availability p)) (allProvidersMetadata (providerMetadata offline)) = None"
    by (simp add: allProvidersMetadata_def rec_values_def providerMetadata_def availability_def
          openrouter_ai_def browser_local_audio_speech_def browser_local_isAvailableBy_def
          ollama_def xai_def offline_def)
  have d: "filter (\<lambda>p. availability p = Inr True) (allProvidersMetadata (providerMetadata offline))
        = [openrouter_ai offline, ollama offline, xai offline]"
    by (simp add: allProvidersMetadata_def rec_values_def providerMetadata_def availability_def
          openrouter_ai_def browser_local_audio_speech_def browser_local_isAvailableBy_def
          ollama_def xai_def offline_def)
  from C4_first_throwing_predicate_aborts [OF wf_providerMetadata [of probe_fails]]
       C4_first_throwing_predicate_aborts [OF wf_providerMetadata [of offline]]
       a b c d wf_providerMetadata
  show ?thesis by simp
qed

text \<open>
  C4 as stated fails: when the WebGPU probe of \<^verbatim>\<open>browser-local-audio-speech\<close> rejects,
  the whole computation rejects with that error and gives no list, so that neither
  \<^verbatim>\<open>openrouter-ai\<close> before it nor \<^verbatim>\<open>ollama\<close> and \<^verbatim>\<open>xai\<close> after it are listed.
\<close>

theorem C4_throwing_predicate_is_fatal:
  "availableProvidersMetadata (providerMetadata probe_fails) = Inl probe_error"
  by (simp add: availableProvidersMetadata_def allProvidersMetadata_def rec_values_def
        providerMetadata_def getProviderMetadata_def rec_read_def availability_def
        openrouter_ai_def browser_local_audio_speech_def browser_local_isAvailableBy_def
        probe_fails_def)

subsection \<open>The settings page\<close>

lemma validateConfiguration_balanced:
  "balanced page \<Longrightarrow> balanced (validateConfiguration md t p page)"
  by (auto simp: validateConfiguration_def balanced_def Let_def split: sum.splits option.splits)

lemma field_set_counter [simp]:
  "isValidating (field_set p k v page) = isValidating page"
  "inflight (field_set p k v page) = inflight page"
  by (simp_all add: field_set_def)

lemma initializeProvider_counter:
  "initializeProvider md p page = Inr p1 \<Longrightarrow>
     isValidating p1 = isValidating page \<and> inflight p1 = inflight page"
  by (auto simp: initializeProvider_def Let_def split: js_read.splits)

lemma onMounted_balanced:
  "balanced page \<Longrightarrow> balanced (onMounted md t p page)"
proof (cases "initializeProvider md p page")
  case (Inl e)
  assume "balanced page"
  with Inl show ?thesis by (simp add: onMounted_def)
next
  case (Inr p1)
  assume b: "balanced page"
  let ?p3 = "field_set p ''baseUrl''
               (field_get p ''baseUrl'' (field_set p ''apiKey'' (field_get p ''apiKey'' p1) p1))
               (field_set p ''apiKey'' (field_get p ''apiKey'' p1) p1)"
  from initializeProvider_counter [OF Inr] b have "balanced ?p3"
    by (simp add: balanced_def)
  then have "balanced (validateConfiguration md t p ?p3)"
    by (rule validateConfiguration_balanced)
  with \<open>balanced ?p3\<close> Inr show ?thesis
    by (simp add: onMounted_def Let_def split: sum.splits)
qed

lemma validation_settled_balanced:
  "balanced page \<Longrightarrow> balanced (validation_settled t i page)"
  by (auto simp: validation_settled_def balanced_def split: validation_call.splits sum.splits)

lemma timer_elapsed_balanced:
  "balanced page \<Longrightarrow> balanced (timer_elapsed i page)"
  by (auto simp: timer_elapsed_def balanced_def split: validation_call.splits)

lemma debounce_elapsed_balanced:
  "balanced page \<Longrightarrow> \<not> clears_counter p page DebounceElapsed \<Longrightarrow>
     balanced (debounce_elapsed md t p page)"
proof -
  assume b: "balanced page" and q: "\<not> clears_counter p page DebounceElapsed"
  let ?page = "page\<lparr>debounce_armed := False\<rparr>"
  have g: "field_get p ''apiKey'' ?page = field_get p ''apiKey'' page"
    by (simp add: field_get_def)
  from b have b': "balanced ?page" by (simp add: balanced_def)
  then have v: "balanced (validateConfiguration md t p ?page)"
    by (rule validateConfiguration_balanced)
  show ?thesis
  proof (cases "debounce_armed page")
    case False
    with b show ?thesis by (simp add: debounce_elapsed_def)
  next
    case True
    with q have "trim_value (field_get p ''apiKey'' page) \<noteq> Inr []"
      by (simp add: clears_counter_def)
    with True b' v g show ?thesis
      by (auto simp: debounce_elapsed_def debounced_body_def split: sum.splits)
  qed
qed

lemma step_balanced:
  "balanced page \<Longrightarrow> \<not> clears_counter p page e \<Longrightarrow> balanced (step md t p page e)"
proof (cases e)
  case Mounted
  assume "balanced page"
  with Mounted show ?thesis by (simp add: onMounted_balanced)
next
  case (ApiKeyInput v)
  assume "balanced page"
  with ApiKeyInput show ?thesis by (simp add: balanced_def)
next
  case (BaseUrlInput v)
  assume "balanced page"
  with BaseUrlInput show ?thesis by (simp add: balanced_def)
next
  case WatchCallback
  assume "balanced page"
  with WatchCallback show ?thesis by (simp add: balanced_def watch_callback_def)
next
  case DebounceElapsed
  assume "balanced page" "\<not> clears_counter p page e"
  with DebounceElapsed show ?thesis by (simp add: debounce_elapsed_balanced)
next
  case (ValidationSettled i)
  assume "balanced page"
  with ValidationSettled show ?thesis by (simp add: validation_settled_balanced)
next
  case (TimerElapsed i)
  assume "balanced page"
  with TimerElapsed show ?thesis by (simp add: timer_elapsed_balanced)
next
  case ResetClicked
  assume "\<not> clears_counter p page e"
  with ResetClicked show ?thesis by (simp add: clears_counter_def)
qed

lemma quiet_run_balanced:
  "balanced page \<Longrightarrow> quiet md t p page evs \<Longrightarrow> balanced (run md t p page evs)"
proof (induction evs arbitrary: page)
  case Nil
  then show ?case by (simp add: run_def)
next
  case (Cons e evs)
  from Cons.prems have "balanced (step md t p page e)" by (simp add: step_balanced)
  with Cons.IH [of "step md t p page e"] Cons.prems show ?case by (simp add: run_def)
qed

lemma clearing_step_zero:
  "clears_counter p page e \<Longrightarrow> rec_get md p = Some m \<Longrightarrow> isValidating (step md t p page e) = 0"
  by (cases e)
     (auto simp: clears_counter_def handleResetSettings_def getProviderMetadata_def
        rec_read_own debounce_elapsed_def debounced_body_def field_get_def)

text \<open>
  C8, as the code has it. The claim says that no step sets the counter to 0 while a call
  is in flight. Two steps do, by an explicit assignment: the reset handler and the
  debounced function on an empty API key. What holds is this. \<^verbatim>\<open>isValidating\<close> is an
  integer that every started validation raises by one and every completion handler
  lowers by one: along every run of the page, from its initial state, in which none of
  those two steps occurs, the counter equals the number of validation calls in flight, so
  it is 0 only when all of them have completed. Each of the two steps, on a provider of
  the table, sets the counter to 0 whatever is in flight.
\<close>

theorem C8_counter_counts_calls_in_flight:
  "(quiet md t p (fresh_page creds) evs \<longrightarrow>
      isValidating (run md t p (fresh_page creds) evs)
        = int (length (inflight (run md t p (fresh_page creds) evs))))
   \<and> (clears_counter p page e \<and> rec_get md p = Some m \<longrightarrow>
        isValidating (step md t p page e) = 0)"
proof -
  have "balanced (fresh_page creds)" by (simp add: balanced_def fresh_page_def)
  then show ?thesis
    using quiet_run_balanced [of "fresh_page creds" md t p evs] clearing_step_zero [of p page e md m t]
    by (auto simp: balanced_def)
qed

text \<open>
  C8 at concrete inputs: the page of \<^verbatim>\<open>xai\<close> with a stored key is mounted and its
  validation settles; the key is edited; the timer of the first call fires and then the
  debounced validation starts, which leaves one call in flight and the counter at 1.
  And a reset right after the first validation has settled sets the counter to 0.
\<close>

theorem C8_counter_counts_calls_in_flight_witness:
  "quiet (providerMetadata offline) t_en ''xai'' (fresh_page xai_key)
     [Mounted, ValidationSettled 0, ApiKeyInput ''sk-2'', WatchCallback, TimerElapsed 0, DebounceElapsed]
   \<and> isValidating (run (providerMetadata offline) t_en ''xai'' (fresh_page xai_key)
     [Mounted, ValidationSettled 0, ApiKeyInput ''sk-2'', WatchCallback, TimerElapsed 0, DebounceElapsed]) = 1
   \<and> isValidating (step (providerMetadata offline) t_en ''xai''
        (run (providerMetadata offline) t_en ''xai'' (fresh_page xai_key) [Mounted, ValidationSettled 0])
        ResetClicked) = 0"
proof -
  let ?evs = "[Mounted, ValidationSettled 0, ApiKeyInput ''sk-2'', WatchCallback, TimerElapsed 0, DebounceElapsed]"
  have q: "quiet (providerMetadata offline) t_en ''xai'' (fresh_page xai_key) ?evs"
    by code_simp
  have l: "length (inflight (run (providerMetadata offline) t_en ''xai'' (fresh_page xai_key) ?evs)) = 1"
    by code_simp
  have c: "clears_counter ''xai''
             (run (providerMetadata offline) t_en ''xai'' (fresh_page xai_key)
                [Mounted, ValidationSettled 0]) ResetClicked"
    by (simp add: clears_counter_def)
  from C8_counter_counts_calls_in_flight
         [of "providerMetadata offline" t_en "''xai''" xai_key ?evs
             "run (providerMetadata offline) t_en ''xai'' (fresh_page xai_key)
                [Mounted, ValidationSettled 0]"
             ResetClicked "xai offline"]
       q l c table_xai [of offline]
  show ?thesis by simp
qed

text \<open>
  C8 as stated fails: the page of \<^verbatim>\<open>xai\<close> is mounted with a stored key and the
  validation settles, so that the counter is 1 and the call waits for the timer that
  runs its completion handler. A click on reset then sets the counter to 0 with that
  call still in flight; when its completion handler runs, the counter is -1.
\<close>

theorem C8_reset_zeroes_counter_in_flight:
  "isValidating (run (providerMetadata offline) t_en ''xai'' (fresh_page xai_key)
        [Mounted, ValidationSettled 0]) = 1
   \<and> inflight (run (providerMetadata offline) t_en ''xai'' (fresh_page xai_key)
        [Mounted, ValidationSettled 0]) = [Delayed []]
   \<and> isValidating (run (providerMetadata offline) t_en ''xai'' (fresh_page xai_key)
        [Mounted, ValidationSettled 0, ResetClicked]) = 0
   \<and> inflight (run (providerMetadata offline) t_en ''xai'' (fresh_page xai_key)
        [Mounted, ValidationSettled 0, ResetClicked]) = [Delayed []]
   \<and> isValidating (run (providerMetadata offline) t_en ''xai'' (fresh_page xai_key)
        [Mounted, ValidationSettled 0, ResetClicked, TimerElapsed 0]) = - 1"
  by code_simp

text \<open>
  C2 on the code, at a concrete input: the page of \<^verbatim>\<open>ollama\<close> with a custom base URL and a
  header. After \<^verbatim>\<open>handleResetSettings\<close> the stored configuration is the empty object,
  while \<^verbatim>\<open>defaultOptions()\<close> of \<^verbatim>\<open>ollama\<close> is \<^verbatim>\<open>{baseUrl: 'http://localhost:11434/v1/'}\<close>:
  the previous configuration is replaced as a whole, but not by the defaults.
\<close>

theorem C2_reset_stores_empty_object:
  "rec_get (providerCredentials
      (handleResetSettings (providerMetadata offline) ''ollama''
         (fresh_page [(''ollama'', [(''baseUrl'', JStr ''http://192.168.1.5:11434/v1/''),
                                    (''headers'', JObj [(''X-Token'', JStr ''abc'')])])])))
      ''ollama'' = Some []
   \<and> map_option (\<lambda>f. f ()) (defaultOptions (ollama offline))
        = Some [(''baseUrl'', JStr ''http://localhost:11434/v1/'')]"
  by code_simp

end
